theory Spec2Isabelle
  imports Main "HOL-Library.AList" "HOL-Library.Word"
begin

section \<open>Go maps and the room index (map.go)\<close>

text \<open>
  A Go \<^verbatim>\<open>map[string]V\<close> (and a \<^verbatim>\<open>sync.Map\<close>) is modelled as an association
  list: \<^verbatim>\<open>m[k]\<close> is \<^const>\<open>map_of\<close>, \<^verbatim>\<open>m[k] = v\<close> is \<^const>\<open>AList.update\<close>,
  \<^verbatim>\<open>delete(m, k)\<close> is \<^const>\<open>AList.delete\<close> and \<^verbatim>\<open>len(m)\<close> is
  \<^const>\<open>length\<close>. The keys of a list built by these operations from the empty map are
  pairwise distinct. The order of the list is the order in which a \<^verbatim>\<open>range\<close> visits
  the entries; Go leaves that order unspecified, and no statement below depends on it.

  A connection handle stored in a room is a pointer to a namespace-connection view; the
  model identifies it by the session id returned by \<^verbatim>\<open>ID()\<close> and the namespace
  of the view.
\<close>

datatype Conn = Conn (ID: string) (viewNamespace: string)

type_synonym connMap = "(string \<times> Conn) list"

type_synonym roomMap = "(string \<times> connMap) list"

text \<open>
  \<^verbatim>\<open>getKeysOfMap\<close>: \<^verbatim>\<open>res := make([]K, len(m))\<close> allocates a slice that already
  holds \<^verbatim>\<open>len(m)\<close> zero values (empty strings for \<^verbatim>\<open>K = string\<close>), and the loop
  appends every key behind them.
\<close>

definition getKeysOfMap :: "(string \<times> 'v) list \<Rightarrow> string list" where
  "getKeysOfMap m = replicate (length m) [] @ map fst m"

definition newConnMap :: connMap where
  "newConnMap = []"

definition connMap_join :: "Conn \<Rightarrow> connMap \<Rightarrow> connMap" where
  "connMap_join conn cm = AList.update (ID conn) conn cm"

definition connMap_leave :: "Conn \<Rightarrow> connMap \<Rightarrow> connMap" where
  "connMap_leave conn cm = AList.delete (ID conn) cm"

definition connMap_len :: "connMap \<Rightarrow> nat" where
  "connMap_len cm = length cm"

definition getConn :: "connMap \<Rightarrow> string \<Rightarrow> Conn option" where
  "getConn cm connID = map_of cm connID"

definition listConnID :: "connMap \<Rightarrow> string list" where
  "listConnID cm = getKeysOfMap cm"

text \<open>
  \<^verbatim>\<open>connMap.forEach\<close> and \<^verbatim>\<open>roomMap.forEach\<close> take a closure that returns
  \<^verbatim>\<open>false\<close> to stop and that updates variables it has captured. The model threads
  those variables through as an accumulator: the closure maps the accumulator to the
  continue flag and the new accumulator. An id of the snapshot that is no key of the map
  is skipped (\<^verbatim>\<open>continue\<close>).
\<close>

fun connMap_forEach_loop ::
  "(string \<Rightarrow> Conn \<Rightarrow> 'a \<Rightarrow> bool \<times> 'a) \<Rightarrow> connMap \<Rightarrow> string list \<Rightarrow> 'a \<Rightarrow> 'a" where
  "connMap_forEach_loop h cm [] acc = acc"
| "connMap_forEach_loop h cm (connID # rest) acc =
     (case getConn cm connID of
        None \<Rightarrow> connMap_forEach_loop h cm rest acc
      | Some c \<Rightarrow>
          (case h connID c acc of
             (True, acc') \<Rightarrow> connMap_forEach_loop h cm rest acc'
           | (False, acc') \<Rightarrow> acc'))"

definition connMap_forEach ::
  "(string \<Rightarrow> Conn \<Rightarrow> 'a \<Rightarrow> bool \<times> 'a) \<Rightarrow> connMap \<Rightarrow> 'a \<Rightarrow> 'a" where
  "connMap_forEach h cm acc = connMap_forEach_loop h cm (listConnID cm) acc"

definition newRoomMap :: roomMap where
  "newRoomMap = []"

text \<open>
  \<^verbatim>\<open>roomMap.join\<close>: the inner map is created on the first insert. The inner map is
  held by pointer, so \<^verbatim>\<open>cm.join(conn)\<close> changes the entry of the room in place.
\<close>

definition roomMap_join :: "string \<Rightarrow> Conn \<Rightarrow> roomMap \<Rightarrow> roomMap" where
  "roomMap_join room conn rm =
     (case map_of rm room of
        None \<Rightarrow> AList.update room (connMap_join conn newConnMap) rm
      | Some cm \<Rightarrow> AList.update room (connMap_join conn cm) rm)"

definition listRoomID :: "roomMap \<Rightarrow> string list" where
  "listRoomID rm = getKeysOfMap rm"

text \<open>
  \<^verbatim>\<open>roomMap.leave\<close> runs under the write lock from its first to its last statement:
  the member is removed and, when the inner map has become empty, the entry of the room
  is deleted before the lock is released. One call is one step of the model.
\<close>

definition roomMap_leave :: "string \<Rightarrow> Conn \<Rightarrow> roomMap \<Rightarrow> roomMap" where
  "roomMap_leave room conn rm =
     (case map_of rm room of
        None \<Rightarrow> rm
      | Some cm \<Rightarrow>
          (let cm' = connMap_leave conn cm
           in if connMap_len cm' = 0 then AList.delete room rm
              else AList.update room cm' rm))"

definition roomMap_leaveAll :: "Conn \<Rightarrow> roomMap \<Rightarrow> roomMap" where
  "roomMap_leaveAll conn rm = fold (\<lambda>roomID m. roomMap_leave roomID conn m) (listRoomID rm) rm"

definition roomMap_delete :: "string \<Rightarrow> roomMap \<Rightarrow> roomMap" where
  "roomMap_delete room rm = AList.delete room rm"

definition getConnections :: "roomMap \<Rightarrow> string \<Rightarrow> connMap option" where
  "getConnections rm room = map_of rm room"

fun roomMap_forEach_loop ::
  "(string \<Rightarrow> connMap \<Rightarrow> 'a \<Rightarrow> bool \<times> 'a) \<Rightarrow> roomMap \<Rightarrow> string list \<Rightarrow> 'a \<Rightarrow> 'a" where
  "roomMap_forEach_loop h rm [] acc = acc"
| "roomMap_forEach_loop h rm (roomID # rest) acc =
     (case getConnections rm roomID of
        None \<Rightarrow> roomMap_forEach_loop h rm rest acc
      | Some cm \<Rightarrow>
          (case h roomID cm acc of
             (True, acc') \<Rightarrow> roomMap_forEach_loop h rm rest acc'
           | (False, acc') \<Rightarrow> acc'))"

definition roomMap_forEach ::
  "(string \<Rightarrow> connMap \<Rightarrow> 'a \<Rightarrow> bool \<times> 'a) \<Rightarrow> roomMap \<Rightarrow> 'a \<Rightarrow> 'a" where
  "roomMap_forEach h rm acc = roomMap_forEach_loop h rm (listRoomID rm) acc"

section \<open>The local broadcaster (broadcast\_local.go)\<close>

record broadcastLocal =
  nsp :: string
  uid :: string
  roomsSync :: roomMap

text \<open>The uid is a random v4 UUID in the source; the model takes it as an argument.\<close>

definition newBroadcastLocal :: "string \<Rightarrow> string \<Rightarrow> broadcastLocal" where
  "newBroadcastLocal n u = \<lparr>nsp = n, uid = u, roomsSync = newRoomMap\<rparr>"

definition getOccupants :: "broadcastLocal \<Rightarrow> string \<Rightarrow> connMap option" where
  "getOccupants bc room = getConnections (roomsSync bc) room"

definition broadcastLocal_clear :: "string \<Rightarrow> broadcastLocal \<Rightarrow> broadcastLocal" where
  "broadcastLocal_clear room bc = bc\<lparr>roomsSync := roomMap_delete room (roomsSync bc)\<rparr>"

definition broadcastLocal_join :: "string \<Rightarrow> Conn \<Rightarrow> broadcastLocal \<Rightarrow> broadcastLocal" where
  "broadcastLocal_join room conn bc = bc\<lparr>roomsSync := roomMap_join room conn (roomsSync bc)\<rparr>"

definition broadcastLocal_leaveAll :: "Conn \<Rightarrow> broadcastLocal \<Rightarrow> broadcastLocal" where
  "broadcastLocal_leaveAll conn bc = bc\<lparr>roomsSync := roomMap_leaveAll conn (roomsSync bc)\<rparr>"

definition broadcastLocal_leave :: "string \<Rightarrow> Conn \<Rightarrow> broadcastLocal \<Rightarrow> broadcastLocal" where
  "broadcastLocal_leave room conn bc = bc\<lparr>roomsSync := roomMap_leave room conn (roomsSync bc)\<rparr>"

text \<open>
  \<^verbatim>\<open>forEach\<close>, \<^verbatim>\<open>send\<close> and \<^verbatim>\<open>sendAll\<close> call a function on members of rooms
  (\<^verbatim>\<open>send\<close> starts one goroutine per member). The model returns the members the
  function is called on, in the order of the iteration.
\<close>

definition broadcastLocal_forEach :: "broadcastLocal \<Rightarrow> string \<Rightarrow> Conn list" where
  "broadcastLocal_forEach bc room =
     (case getOccupants bc room of
        None \<Rightarrow> []
      | Some occupants \<Rightarrow> connMap_forEach (\<lambda>_ conn acc. (True, acc @ [conn])) occupants [])"

definition broadcastLocal_send :: "broadcastLocal \<Rightarrow> string \<Rightarrow> Conn list" where
  "broadcastLocal_send bc room =
     (case getOccupants bc room of
        None \<Rightarrow> []
      | Some conns \<Rightarrow> connMap_forEach (\<lambda>_ conn acc. (True, acc @ [conn])) conns [])"

definition broadcastLocal_sendAll :: "broadcastLocal \<Rightarrow> Conn list" where
  "broadcastLocal_sendAll bc =
     roomMap_forEach
       (\<lambda>_ cm acc. (True, connMap_forEach (\<lambda>_ conn acc'. (True, acc' @ [conn])) cm acc))
       (roomsSync bc) []"

definition allRooms :: "broadcastLocal \<Rightarrow> string list" where
  "allRooms bc = roomMap_forEach (\<lambda>room _ rooms. (True, rooms @ [room])) (roomsSync bc) []"

text \<open>
  \<^verbatim>\<open>lenRoom\<close> increments its counter once for every visited room whose name is the
  argument; the inner map of the room is not looked at. The result is a Go \<^verbatim>\<open>int\<close>;
  it counts entries of a slice held in memory, so it cannot overflow.
\<close>

definition lenRoom :: "broadcastLocal \<Rightarrow> string \<Rightarrow> int" where
  "lenRoom bc roomID =
     roomMap_forEach (\<lambda>room _ res. (True, if room = roomID then res + 1 else res))
       (roomsSync bc) 0"

definition getRoomsByConn :: "broadcastLocal \<Rightarrow> Conn \<Rightarrow> string list" where
  "getRoomsByConn bc connection =
     roomMap_forEach
       (\<lambda>room cm rooms.
          (True, connMap_forEach
                   (\<lambda>connID _ rooms'.
                      (True, if ID connection = connID then rooms' @ [room] else rooms'))
                   cm rooms))
       (roomsSync bc) []"

section \<open>Sequences of join and leave on the room index\<close>

datatype roomOp = Join string Conn | Leave string Conn

fun applyOp :: "roomOp \<Rightarrow> roomMap \<Rightarrow> roomMap" where
  "applyOp (Join room c) rm = roomMap_join room c rm"
| "applyOp (Leave room c) rm = roomMap_leave room c rm"

definition runOps :: "roomOp list \<Rightarrow> roomMap" where
  "runOps ops = fold applyOp ops newRoomMap"

text \<open>
  What the code can observe of one room: \<^verbatim>\<open>cm, ok := rm.data[room]\<close> and, when the
  entry is there, \<^verbatim>\<open>cm.len()\<close>.
\<close>

definition roomCard :: "roomMap \<Rightarrow> string \<Rightarrow> nat" where
  "roomCard rm r = (case getConnections rm r of None \<Rightarrow> 0 | Some cm \<Rightarrow> connMap_len cm)"

definition roomExists :: "roomMap \<Rightarrow> string \<Rightarrow> bool" where
  "roomExists rm r = (getConnections rm r \<noteq> None)"

text \<open>
  The specification's side, written from its words and not from the code: the
  connections (by connection-ID, the key under which the code stores a member) that have
  joined a room and have not left it since.
\<close>

fun joinedStep :: "roomOp \<Rightarrow> (string \<Rightarrow> string set) \<Rightarrow> (string \<Rightarrow> string set)" where
  "joinedStep (Join room c) J = J(room := insert (ID c) (J room))"
| "joinedStep (Leave room c) J = J(room := J room - {ID c})"

definition joinedNotLeft :: "roomOp list \<Rightarrow> string \<Rightarrow> string set" where
  "joinedNotLeft ops = fold joinedStep ops (\<lambda>_. {})"

text \<open>The abstraction and the invariant used in the proofs about the room index.\<close>

definition members :: "roomMap \<Rightarrow> string \<Rightarrow> string set" where
  "members rm r = (case map_of rm r of None \<Rightarrow> {} | Some cm \<Rightarrow> fst ` set cm)"

definition innerOk :: "roomMap \<Rightarrow> bool" where
  "innerOk rm = (\<forall>r cm. map_of rm r = Some cm \<longrightarrow> cm \<noteq> [] \<and> distinct (map fst cm))"

section \<open>Values, errors and user functions\<close>

text \<open>
  Go values that travel as \<^verbatim>\<open>interface{}\<close> or \<^verbatim>\<open>reflect.Value\<close>. A function
  value is identified by a number and carries the parameter types that reflection
  reports for it; what the function does when it is called belongs to the user's
  program and is a parameter of the model (\<open>reflectCall\<close> below).
\<close>

datatype rtype = TyString | TyInt | TyMap | TyConn | TyNamed string

datatype val =
    VNil
  | VString string
  | VInt int
  | VMap "(string \<times> val) list"
  | VConn Conn
  | VFunc nat "rtype list"

text \<open>
  The sentinel errors of the package are compared by identity, so they are constructors;
  \<open>ErrorText\<close> is any other error with its message.
\<close>

datatype error =
    errFailedConnectNamespace
  | errDecodeArgs
  | errHandleDispatch
  | ErrInvalidPacketType
  | ErrorText string

text \<open>
  Modelled from the spec: the declaration of \<^verbatim>\<open>errFailedConnectNamespace\<close> is not among
  the sources; the spec gives its message, \<open>failed to connect to the namespace\<close>.
\<close>

definition errFailedConnectNamespace_text :: string where
  "errFailedConnectNamespace_text = ''failed to connect to the namespace''"

text \<open>
  Modelled from the spec: the declaration of \<^verbatim>\<open>rootNamespace\<close> is not among the sources;
  the spec names \<open>/\<close> as the root namespace.
\<close>

definition rootNamespace :: string where
  "rootNamespace = ''/''"

text \<open>
  Modelled from the spec: the declaration of \<^verbatim>\<open>aliasRootNamespace\<close> is not among the
  sources; in the spec the empty string is the alias of the root namespace.
\<close>

definition aliasRootNamespace :: string where
  "aliasRootNamespace = []"

text \<open>
  Modelled from the spec: the declaration of \<^verbatim>\<open>clientDisconnectMsg\<close> is not among the
  sources; the spec gives the synthetic reason \<open>client disconnected\<close>.
\<close>

definition clientDisconnectMsg :: string where
  "clientDisconnectMsg = ''client disconnected''"

text \<open>
  The message of an error; those of the other sentinel errors are not given anywhere
  (\<open>None\<close>).
\<close>

fun errorText :: "error \<Rightarrow> string option" where
  "errorText errFailedConnectNamespace = Some errFailedConnectNamespace_text"
| "errorText (ErrorText s) = Some s"
| "errorText _ = None"

text \<open>
  The outcome of \<^verbatim>\<open>reflect.Value.Call\<close> on a user function: it returns values, or it
  panics with a value that is an \<^verbatim>\<open>error\<close>, or with another value (given here by its
  \<^verbatim>\<open>%s\<close> rendering).
\<close>

datatype callResult = Returns "val list" | PanicsError error | PanicsValue string

text \<open>
  The parts of a run that the package does not decide: the decoder of the parser package
  (\<^verbatim>\<open>DecodeArgs\<close> on the raw payload of the packet being read; the package is not
  among the sources), the behaviour of the user's functions, and what a user's connect
  handler returns. A function of the user is taken to return or to panic; what it may
  itself do to the connection it is given (emit, join, close) is not part of the model.
\<close>

record env =
  DecodeArgs :: "rtype list \<Rightarrow> string \<Rightarrow> error + val list"
  reflectCall :: "nat \<Rightarrow> val list \<Rightarrow> callResult"
  connectResult :: "nat \<Rightarrow> Conn \<Rightarrow> val \<Rightarrow> error option"

text \<open>Every invocation of a function of the user is written to a log, in order.\<close>

datatype callback =
    CalledFunc nat "val list"
  | CalledOnConnect nat Conn val
  | CalledOnDisconnect nat Conn string val
  | CalledOnError nat Conn error

record funcHandler =
  argTypes :: "rtype list"
  f :: nat

text \<open>
  \<^verbatim>\<open>funcHandler.Call\<close>: the deferred \<^verbatim>\<open>recover\<close> turns a panic of the user function
  into the returned error; the named result \<^verbatim>\<open>ret\<close> is then still nil.
\<close>

definition funcHandler_Call :: "env \<Rightarrow> funcHandler \<Rightarrow> val list \<Rightarrow> val list \<times> error option" where
  "funcHandler_Call e h args =
     (case reflectCall e (f h) args of
        Returns ret \<Rightarrow> (ret, None)
      | PanicsError err \<Rightarrow> ([], Some err)
      | PanicsValue r \<Rightarrow> ([], Some (ErrorText (''event call error: '' @ r))))"

text \<open>The error that the deferred \<^verbatim>\<open>recover\<close> makes of an outcome; none when the call returns.\<close>

fun recovered :: "callResult \<Rightarrow> error option" where
  "recovered (Returns ret) = None"
| "recovered (PanicsError err) = Some err"
| "recovered (PanicsValue r) = Some (ErrorText (''event call error: '' @ r))"

fun typeName :: "rtype \<Rightarrow> string" where
  "typeName TyString = ''string''"
| "typeName TyInt = ''int''"
| "typeName TyMap = []"
| "typeName TyConn = ''Conn''"
| "typeName (TyNamed n) = n"

definition goSocketIOConnInterface :: string where
  "goSocketIOConnInterface = ''Conn''"

text \<open>The two constructors panic on a value that is no function (\<open>Inl\<close> the panic).\<close>

fun newEventFunc :: "val \<Rightarrow> string + funcHandler" where
  "newEventFunc (VFunc fid params) =
     (if length params < 1 \<or> typeName (hd params) \<noteq> goSocketIOConnInterface
      then Inl ''handler function should be like func(socketio.Conn, ...)''
      else Inr \<lparr>argTypes = tl params, f = fid\<rparr>)"
| "newEventFunc _ = Inl ''event handler must be a func.''"


section \<open>The Redis broadcaster (redisBroadcastRemoteV9)\<close>

definition roomLenReqType :: string where
  "roomLenReqType = ''0''"

definition clearRoomReqType :: string where
  "clearRoomReqType = ''1''"

definition allRoomReqType :: string where
  "allRoomReqType = ''2''"

text \<open>
  The two request structs that wait for responses. \<open>done\<close> tells whether a value has
  been sent on the channel \<^verbatim>\<open>done\<close>. The counters are Go \<^verbatim>\<open>int\<close>s; they count
  subscribers, messages and connections and are modelled as integers.
\<close>

record roomLenRequest =
  rl_RequestType :: string
  rl_RequestID :: string
  rl_Room :: string
  rl_numSub :: int
  rl_msgCount :: int
  rl_connections :: int
  rl_done :: bool

record allRoomRequest =
  ar_RequestType :: string
  ar_RequestID :: string
  ar_rooms :: "(string \<times> bool) list"
  ar_numSub :: int
  ar_msgCount :: int
  ar_done :: bool

datatype request = RoomLenRequest roomLenRequest | AllRoomRequest allRoomRequest

text \<open>
  A message on the response channel. \<^verbatim>\<open>onResponse\<close> unmarshals it into a map and
  reads the keys below; \<open>res_Rooms\<close> is \<open>None\<close> when the value under \<^verbatim>\<open>"Rooms"\<close> is no
  list. Peers run the same code, so the request id is a string, the connection count a
  number, and the rooms strings.
\<close>

record response =
  res_RequestType :: string
  res_RequestID :: string
  res_Connections :: int
  res_Rooms :: "string list option"

datatype busMessage = Undecodable | Response response

text \<open>What the broadcaster has published: the channel and the payload.\<close>

datatype published =
    RoomLenRequestJSON string string
  | AllRoomRequestJSON string
  | ClearRoomRequestJSON string string string
  | BroadcastJSON string string "val list"
  | NoPayload

record redisBroadcastRemoteV9 =
  key :: string
  reqChannel :: string
  resChannel :: string
  requests :: "(string \<times> request) list"
  publishedLog :: "(string \<times> published) list"

text \<open>
  What the bus does during one call of the broadcaster: the request id drawn by
  \<^verbatim>\<open>newV4UUID\<close>, whether \<^verbatim>\<open>json.Marshal\<close> fails, the result of
  \<^verbatim>\<open>PubSubNumSub\<close>, the result of \<^verbatim>\<open>Publish\<close>, and the messages that the dispatcher
  task hands to \<^verbatim>\<open>onResponse\<close> while the caller waits on \<^verbatim>\<open>done\<close> (all of them:
  when the list is used up, no further message ever arrives).
\<close>

record bus =
  newV4UUID :: string
  marshalFails :: bool
  pubSubNumSub :: "error + (string \<times> int) list"
  publishError :: "error option"
  incoming :: "busMessage list"

definition getNumSub :: "bus \<Rightarrow> string \<Rightarrow> int \<times> error option" where
  "getNumSub b channel =
     (case pubSubNumSub b of
        Inl err \<Rightarrow> (0, Some err)
      | Inr rs \<Rightarrow> (case rs of [] \<Rightarrow> (0, None) | (_, numSub) # _ \<Rightarrow> (numSub, None)))"

text \<open>
  \<^verbatim>\<open>onResponse\<close>. The type assertions \<^verbatim>\<open>req.(*roomLenRequest)\<close> and
  \<^verbatim>\<open>req.(*allRoomRequest)\<close> panic on a request of the other kind (\<open>Inl\<close>).
\<close>

definition onResponse :: "busMessage \<Rightarrow> (string \<times> request) list \<Rightarrow> string + (string \<times> request) list" where
  "onResponse msg reqs =
     (case msg of
        Undecodable \<Rightarrow> Inr reqs
      | Response res \<Rightarrow>
          (case map_of reqs (res_RequestID res) of
             None \<Rightarrow> Inr reqs
           | Some req \<Rightarrow>
               if res_RequestType res = roomLenReqType then
                 (case req of
                    RoomLenRequest r \<Rightarrow>
                      (let r1 = r\<lparr>rl_msgCount := rl_msgCount r + 1,
                                   rl_connections := rl_connections r + res_Connections res\<rparr>;
                           r2 = (if rl_numSub r1 = rl_msgCount r1 then r1\<lparr>rl_done := True\<rparr> else r1)
                       in Inr (AList.update (res_RequestID res) (RoomLenRequest r2) reqs))
                  | AllRoomRequest _ \<Rightarrow> Inl ''interface conversion: not *roomLenRequest'')
               else if res_RequestType res = allRoomReqType then
                 (case req of
                    AllRoomRequest a \<Rightarrow>
                      (case res_Rooms res of
                         None \<Rightarrow>
                           Inr (AList.update (res_RequestID res) (AllRoomRequest (a\<lparr>ar_done := True\<rparr>)) reqs)
                       | Some rooms \<Rightarrow>
                           (let a1 = a\<lparr>ar_msgCount := ar_msgCount a + 1,
                                        ar_rooms := fold (\<lambda>room m. AList.update room True m) rooms (ar_rooms a)\<rparr>;
                                a2 = (if ar_numSub a1 = ar_msgCount a1 then a1\<lparr>ar_done := True\<rparr> else a1)
                            in Inr (AList.update (res_RequestID res) (AllRoomRequest a2) reqs)))
                  | RoomLenRequest _ \<Rightarrow> Inl ''interface conversion: not *allRoomRequest'')
               else Inr reqs))"

text \<open>
  \<^verbatim>\<open><-req.done\<close>: the caller sleeps until a value is on the channel. There is no
  timeout and no other way out, so the call returns exactly when one of the incoming
  messages makes \<^verbatim>\<open>onResponse\<close> send on \<^verbatim>\<open>done\<close>; otherwise it never returns
  (\<open>Blocked\<close>). The result comes with the request table as the messages leave it.
\<close>

datatype 'a outcome = Returned 'a | Blocked | Panicked string

fun isDone :: "request option \<Rightarrow> bool" where
  "isDone (Some (RoomLenRequest r)) = rl_done r"
| "isDone (Some (AllRoomRequest a)) = ar_done a"
| "isDone None = False"

fun awaitDone ::
  "string \<Rightarrow> busMessage list \<Rightarrow> (string \<times> request) list \<Rightarrow> unit outcome \<times> (string \<times> request) list" where
  "awaitDone rid [] reqs = (if isDone (map_of reqs rid) then Returned () else Blocked, reqs)"
| "awaitDone rid (m # ms) reqs =
     (if isDone (map_of reqs rid) then (Returned (), reqs)
      else (case onResponse m reqs of
              Inl p \<Rightarrow> (Panicked p, reqs)
            | Inr reqs' \<Rightarrow> awaitDone rid ms reqs'))"

fun connectionsOf :: "request option \<Rightarrow> int" where
  "connectionsOf (Some (RoomLenRequest r)) = rl_connections r"
| "connectionsOf _ = 0"

fun roomsOf :: "request option \<Rightarrow> string list" where
  "roomsOf (Some (AllRoomRequest a)) = map fst (ar_rooms a)"
| "roomsOf _ = []"

definition redis_lenRoom ::
  "bus \<Rightarrow> string \<Rightarrow> redisBroadcastRemoteV9 \<Rightarrow> int outcome \<times> redisBroadcastRemoteV9" where
  "redis_lenRoom b room bc =
     (let req = \<lparr>rl_RequestType = roomLenReqType, rl_RequestID = newV4UUID b, rl_Room = room,
                 rl_numSub = 0, rl_msgCount = 0, rl_connections = 0, rl_done = False\<rparr>
      in if marshalFails b then (Returned (- 1), bc)
         else (case getNumSub b (reqChannel bc) of
                 (_, Some err) \<Rightarrow> (Returned (- 1), bc)
               | (numSub, None) \<Rightarrow>
                   (let req1 = req\<lparr>rl_numSub := numSub\<rparr>;
                        bc1 = bc\<lparr>requests :=
                                   AList.update (rl_RequestID req1) (RoomLenRequest req1) (requests bc)\<rparr>
                    in (case publishError b of
                          Some err \<Rightarrow> (Returned (- 1), bc1)
                        | None \<Rightarrow>
                            (let bc2 = bc1\<lparr>publishedLog := publishedLog bc1 @
                                         [(reqChannel bc, RoomLenRequestJSON (rl_RequestID req1) room)]\<rparr>
                             in (case awaitDone (rl_RequestID req1) (incoming b) (requests bc2) of
                                   (Blocked, reqs) \<Rightarrow> (Blocked, bc2\<lparr>requests := reqs\<rparr>)
                                 | (Panicked p, reqs) \<Rightarrow> (Panicked p, bc2\<lparr>requests := reqs\<rparr>)
                                 | (Returned u, reqs) \<Rightarrow>
                                     (Returned (connectionsOf (map_of reqs (rl_RequestID req1))),
                                      bc2\<lparr>requests := AList.delete (rl_RequestID req1) reqs\<rparr>)))))))"

text \<open>
  \<^verbatim>\<open>allRooms\<close> discards the errors of \<^verbatim>\<open>json.Marshal\<close> and of \<^verbatim>\<open>getNumSub\<close>
  (\<^verbatim>\<open>numSub\<close> is then 0) and publishes whatever it has.
\<close>

definition redis_allRooms ::
  "bus \<Rightarrow> redisBroadcastRemoteV9 \<Rightarrow> string list outcome \<times> redisBroadcastRemoteV9" where
  "redis_allRooms b bc =
     (let req = \<lparr>ar_RequestType = allRoomReqType, ar_RequestID = newV4UUID b, ar_rooms = [],
                 ar_numSub = fst (getNumSub b (reqChannel bc)), ar_msgCount = 0, ar_done = False\<rparr>;
          bc1 = bc\<lparr>requests := AList.update (ar_RequestID req) (AllRoomRequest req) (requests bc)\<rparr>
      in (case publishError b of
            Some err \<Rightarrow> (Returned [], bc1)
          | None \<Rightarrow>
              (let bc2 = bc1\<lparr>publishedLog := publishedLog bc1 @
                           [(reqChannel bc,
                             if marshalFails b then NoPayload else AllRoomRequestJSON (ar_RequestID req))]\<rparr>
               in (case awaitDone (ar_RequestID req) (incoming b) (requests bc2) of
                     (Blocked, reqs) \<Rightarrow> (Blocked, bc2\<lparr>requests := reqs\<rparr>)
                   | (Panicked p, reqs) \<Rightarrow> (Panicked p, bc2\<lparr>requests := reqs\<rparr>)
                   | (Returned u, reqs) \<Rightarrow>
                       (Returned (roomsOf (map_of reqs (ar_RequestID req))),
                        bc2\<lparr>requests := AList.delete (ar_RequestID req) reqs\<rparr>)))))"

text \<open>
  \<^verbatim>\<open>publish\<close>, \<^verbatim>\<open>publishClear\<close> and \<^verbatim>\<open>publishMessage\<close> run in goroutines of
  their own and drop every error: a message is on the bus when neither the marshalling
  nor the publishing failed.
\<close>

definition publish :: "bus \<Rightarrow> string \<Rightarrow> published \<Rightarrow> redisBroadcastRemoteV9 \<Rightarrow> redisBroadcastRemoteV9" where
  "publish b channel msg bc =
     (if marshalFails b then bc
      else (case publishError b of
              Some err \<Rightarrow> bc
            | None \<Rightarrow> bc\<lparr>publishedLog := publishedLog bc @ [(channel, msg)]\<rparr>))"

definition publishClear :: "bus \<Rightarrow> string \<Rightarrow> string \<Rightarrow> redisBroadcastRemoteV9 \<Rightarrow> redisBroadcastRemoteV9" where
  "publishClear b localUid room bc =
     publish b (reqChannel bc) (ClearRoomRequestJSON (newV4UUID b) room localUid) bc"

definition publishMessage ::
  "bus \<Rightarrow> string \<Rightarrow> string \<Rightarrow> val list \<Rightarrow> redisBroadcastRemoteV9 \<Rightarrow> redisBroadcastRemoteV9" where
  "publishMessage b room event args bc = publish b (key bc) (BroadcastJSON room event args) bc"

section \<open>The broadcaster interface (broadcast.go and the remote wrapper)\<close>

record broadcastRemote =
  remote :: redisBroadcastRemoteV9
  local :: broadcastLocal

text \<open>
  The two implementations of the interface \<^verbatim>\<open>Broadcaster\<close>: \<^verbatim>\<open>broadcast\<close>, which
  embeds the local broadcaster, and \<^verbatim>\<open>broadcastRemote\<close>. The remote one shares its
  local broadcaster with its \<^verbatim>\<open>redisBroadcastRemoteV9\<close>; the record holds it once.
\<close>

datatype Broadcaster = Broadcast broadcastLocal | BroadcastRemote broadcastRemote

fun Broadcaster_Join :: "string \<Rightarrow> Conn \<Rightarrow> Broadcaster \<Rightarrow> Broadcaster" where
  "Broadcaster_Join room conn (Broadcast bc) = Broadcast (broadcastLocal_join room conn bc)"
| "Broadcaster_Join room conn (BroadcastRemote bc) =
     BroadcastRemote (bc\<lparr>local := broadcastLocal_join room conn (local bc)\<rparr>)"

fun Broadcaster_Leave :: "string \<Rightarrow> Conn \<Rightarrow> Broadcaster \<Rightarrow> Broadcaster" where
  "Broadcaster_Leave room conn (Broadcast bc) = Broadcast (broadcastLocal_leave room conn bc)"
| "Broadcaster_Leave room conn (BroadcastRemote bc) =
     BroadcastRemote (bc\<lparr>local := broadcastLocal_leave room conn (local bc)\<rparr>)"

fun Broadcaster_LeaveAll :: "Conn \<Rightarrow> Broadcaster \<Rightarrow> Broadcaster" where
  "Broadcaster_LeaveAll conn (Broadcast bc) = Broadcast (broadcastLocal_leaveAll conn bc)"
| "Broadcaster_LeaveAll conn (BroadcastRemote bc) =
     BroadcastRemote (bc\<lparr>local := broadcastLocal_leaveAll conn (local bc)\<rparr>)"

fun Broadcaster_Clear :: "bus \<Rightarrow> string \<Rightarrow> Broadcaster \<Rightarrow> Broadcaster" where
  "Broadcaster_Clear b room (Broadcast bc) = Broadcast (broadcastLocal_clear room bc)"
| "Broadcaster_Clear b room (BroadcastRemote bc) =
     BroadcastRemote
       (bc\<lparr>local := broadcastLocal_clear room (local bc),
           remote := publishClear b (uid (local bc)) room (remote bc)\<rparr>)"

text \<open>
  \<^verbatim>\<open>Send\<close>, \<^verbatim>\<open>SendAll\<close> and \<^verbatim>\<open>ForEach\<close> also return the members that the event
  is emitted to, or that the function is called on.
\<close>

fun Broadcaster_Send ::
  "bus \<Rightarrow> string \<Rightarrow> string \<Rightarrow> val list \<Rightarrow> Broadcaster \<Rightarrow> Conn list \<times> Broadcaster" where
  "Broadcaster_Send b room event args (Broadcast bc) = (broadcastLocal_send bc room, Broadcast bc)"
| "Broadcaster_Send b room event args (BroadcastRemote bc) =
     (broadcastLocal_send (local bc) room,
      BroadcastRemote (bc\<lparr>remote := publishMessage b room event args (remote bc)\<rparr>))"

fun Broadcaster_SendAll ::
  "bus \<Rightarrow> string \<Rightarrow> val list \<Rightarrow> Broadcaster \<Rightarrow> Conn list \<times> Broadcaster" where
  "Broadcaster_SendAll b event args (Broadcast bc) = (broadcastLocal_sendAll bc, Broadcast bc)"
| "Broadcaster_SendAll b event args (BroadcastRemote bc) =
     (broadcastLocal_sendAll (local bc),
      BroadcastRemote (bc\<lparr>remote := publishMessage b [] event args (remote bc)\<rparr>))"

fun Broadcaster_ForEach :: "string \<Rightarrow> Broadcaster \<Rightarrow> Conn list" where
  "Broadcaster_ForEach room (Broadcast bc) = broadcastLocal_forEach bc room"
| "Broadcaster_ForEach room (BroadcastRemote bc) = broadcastLocal_forEach (local bc) room"

fun Broadcaster_Len :: "bus \<Rightarrow> string \<Rightarrow> Broadcaster \<Rightarrow> int outcome \<times> Broadcaster" where
  "Broadcaster_Len b room (Broadcast bc) = (Returned (lenRoom bc room), Broadcast bc)"
| "Broadcaster_Len b room (BroadcastRemote bc) =
     (case redis_lenRoom b room (remote bc) of
        (res, r) \<Rightarrow> (res, BroadcastRemote (bc\<lparr>remote := r\<rparr>)))"

fun Broadcaster_AllRooms :: "bus \<Rightarrow> Broadcaster \<Rightarrow> string list outcome \<times> Broadcaster" where
  "Broadcaster_AllRooms b (Broadcast bc) = (Returned (allRooms bc), Broadcast bc)"
| "Broadcaster_AllRooms b (BroadcastRemote bc) =
     (case redis_allRooms b (remote bc) of
        (res, r) \<Rightarrow> (res, BroadcastRemote (bc\<lparr>remote := r\<rparr>)))"

text \<open>
  \<^verbatim>\<open>Rooms(conn)\<close>. The connection is an interface value and may be nil (\<open>None\<close>).
  \<^verbatim>\<open>broadcast.Rooms\<close> passes it to \<^verbatim>\<open>getRoomsByConn\<close>, whose closure calls
  \<^verbatim>\<open>connection.ID()\<close> for every member it visits: on a nil connection the first
  visited member is a nil dereference. \<^verbatim>\<open>broadcastRemote.Rooms\<close> tests for nil first.
\<close>

fun Broadcaster_Rooms :: "bus \<Rightarrow> Conn option \<Rightarrow> Broadcaster \<Rightarrow> string list outcome \<times> Broadcaster" where
  "Broadcaster_Rooms b (Some conn) (Broadcast bc) = (Returned (getRoomsByConn bc conn), Broadcast bc)"
| "Broadcaster_Rooms b None (Broadcast bc) =
     (if broadcastLocal_sendAll bc = [] then Returned [] else Panicked ''nil pointer dereference'',
      Broadcast bc)"
| "Broadcaster_Rooms b None (BroadcastRemote bc) = Broadcaster_AllRooms b (BroadcastRemote bc)"
| "Broadcaster_Rooms b (Some conn) (BroadcastRemote bc) =
     (Returned (getRoomsByConn (local bc) conn), BroadcastRemote bc)"

section \<open>Namespace handlers and the server (server.go)\<close>

text \<open>
  A handler: its broadcaster, the table of event functions, and the three callbacks of
  the user (nil when \<open>None\<close>; a callback is identified by a number like every function
  of the user).
\<close>

record Handler =
  broadcast :: Broadcaster
  events :: "(string \<times> funcHandler) list"
  onConnect :: "nat option"
  onDisconnect :: "nat option"
  onError :: "nat option"

text \<open>
  The methods below are called on a \<^verbatim>\<open>*Handler\<close> that may be nil (\<open>None\<close>); they
  return their result and the handler as the call leaves it.
\<close>

fun Handler_Join :: "string \<Rightarrow> Conn \<Rightarrow> Handler option \<Rightarrow> bool \<times> Handler option" where
  "Handler_Join room conn None = (False, None)"
| "Handler_Join room conn (Some nh) =
     (True, Some (nh\<lparr>broadcast := Broadcaster_Join room conn (broadcast nh)\<rparr>))"

fun Handler_Leave :: "string \<Rightarrow> Conn \<Rightarrow> Handler option \<Rightarrow> bool \<times> Handler option" where
  "Handler_Leave room conn None = (False, None)"
| "Handler_Leave room conn (Some nh) =
     (True, Some (nh\<lparr>broadcast := Broadcaster_Leave room conn (broadcast nh)\<rparr>))"

fun Handler_LeaveAll :: "Conn \<Rightarrow> Handler option \<Rightarrow> bool \<times> Handler option" where
  "Handler_LeaveAll conn None = (False, None)"
| "Handler_LeaveAll conn (Some nh) =
     (True, Some (nh\<lparr>broadcast := Broadcaster_LeaveAll conn (broadcast nh)\<rparr>))"

fun Handler_Clear :: "bus \<Rightarrow> string \<Rightarrow> Handler option \<Rightarrow> bool \<times> Handler option" where
  "Handler_Clear b room None = (False, None)"
| "Handler_Clear b room (Some nh) =
     (True, Some (nh\<lparr>broadcast := Broadcaster_Clear b room (broadcast nh)\<rparr>))"

fun Handler_Send ::
  "bus \<Rightarrow> string \<Rightarrow> string \<Rightarrow> val list \<Rightarrow> Handler option \<Rightarrow> bool \<times> Conn list \<times> Handler option" where
  "Handler_Send b room event args None = (False, [], None)"
| "Handler_Send b room event args (Some nh) =
     (case Broadcaster_Send b room event args (broadcast nh) of
        (to, bc) \<Rightarrow> (True, to, Some (nh\<lparr>broadcast := bc\<rparr>)))"

fun Handler_SendAll ::
  "bus \<Rightarrow> string \<Rightarrow> val list \<Rightarrow> Handler option \<Rightarrow> bool \<times> Conn list \<times> Handler option" where
  "Handler_SendAll b event args None = (False, [], None)"
| "Handler_SendAll b event args (Some nh) =
     (case Broadcaster_SendAll b event args (broadcast nh) of
        (to, bc) \<Rightarrow> (True, to, Some (nh\<lparr>broadcast := bc\<rparr>)))"

fun Handler_Len :: "bus \<Rightarrow> string \<Rightarrow> Handler option \<Rightarrow> int outcome \<times> Handler option" where
  "Handler_Len b room None = (Returned (- 1), None)"
| "Handler_Len b room (Some nh) =
     (case Broadcaster_Len b room (broadcast nh) of
        (res, bc) \<Rightarrow> (res, Some (nh\<lparr>broadcast := bc\<rparr>)))"

text \<open>A nil slice and an empty slice are both the empty list.\<close>

fun Handler_Rooms :: "bus \<Rightarrow> Conn option \<Rightarrow> Handler option \<Rightarrow> string list outcome \<times> Handler option" where
  "Handler_Rooms b conn None = (Returned [], None)"
| "Handler_Rooms b conn (Some nh) =
     (case Broadcaster_Rooms b conn (broadcast nh) of
        (res, bc) \<Rightarrow> (res, Some (nh\<lparr>broadcast := bc\<rparr>)))"

fun Handler_ForEach :: "string \<Rightarrow> Handler option \<Rightarrow> bool \<times> Conn list" where
  "Handler_ForEach room None = (False, [])"
| "Handler_ForEach room (Some nh) = (True, Broadcaster_ForEach room (broadcast nh))"

text \<open>The registry \<^verbatim>\<open>Handlers\<close>: a map from namespace to handler under a lock.\<close>

type_synonym Handlers = "(string \<times> Handler) list"

definition Handlers_Set :: "string \<Rightarrow> Handler \<Rightarrow> Handlers \<Rightarrow> Handlers" where
  "Handlers_Set namespace handler h = AList.update namespace handler h"

definition Handlers_Get :: "Handlers \<Rightarrow> string \<Rightarrow> Handler option" where
  "Handlers_Get h ns = map_of h ns"

record RedisAdapterConfig =
  Addr :: string
  Prefix :: string
  Network :: string
  Password :: string
  DB :: int

record Server =
  nspHandlers :: Handlers
  redisAdapter :: "RedisAdapterConfig option"

definition getNamespaceHandler :: "Server \<Rightarrow> string \<Rightarrow> Handler option" where
  "getNamespaceHandler s ns =
     Handlers_Get (nspHandlers s) (if ns = aliasRootNamespace then rootNamespace else ns)"

text \<open>
  The registry holds pointers: what a method does to the handler it was called on is
  seen by every later lookup. \<open>putHandler\<close> writes the handler back under the namespace
  it was found at; a nil handler leaves the server as it is.
\<close>

fun putHandler :: "Server \<Rightarrow> string \<Rightarrow> Handler option \<Rightarrow> Server" where
  "putHandler s ns None = s"
| "putHandler s ns (Some nh) =
     s\<lparr>nspHandlers :=
         Handlers_Set (if ns = aliasRootNamespace then rootNamespace else ns) nh (nspHandlers s)\<rparr>"

definition JoinRoom :: "Server \<Rightarrow> string \<Rightarrow> string \<Rightarrow> Conn \<Rightarrow> bool \<times> Server" where
  "JoinRoom s namespace room conn =
     (case Handler_Join room conn (getNamespaceHandler s namespace) of
        (ok, nh) \<Rightarrow> (ok, putHandler s namespace nh))"

definition LeaveRoom :: "Server \<Rightarrow> string \<Rightarrow> string \<Rightarrow> Conn \<Rightarrow> bool \<times> Server" where
  "LeaveRoom s namespace room conn =
     (case Handler_Leave room conn (getNamespaceHandler s namespace) of
        (ok, nh) \<Rightarrow> (ok, putHandler s namespace nh))"

definition LeaveAllRooms :: "Server \<Rightarrow> string \<Rightarrow> Conn \<Rightarrow> bool \<times> Server" where
  "LeaveAllRooms s namespace conn =
     (case Handler_LeaveAll conn (getNamespaceHandler s namespace) of
        (ok, nh) \<Rightarrow> (ok, putHandler s namespace nh))"

definition ClearRoom :: "bus \<Rightarrow> Server \<Rightarrow> string \<Rightarrow> string \<Rightarrow> bool \<times> Server" where
  "ClearRoom b s namespace room =
     (case Handler_Clear b room (getNamespaceHandler s namespace) of
        (ok, nh) \<Rightarrow> (ok, putHandler s namespace nh))"

definition BroadcastToRoom ::
  "bus \<Rightarrow> Server \<Rightarrow> string \<Rightarrow> string \<Rightarrow> string \<Rightarrow> val list \<Rightarrow> bool \<times> Conn list \<times> Server" where
  "BroadcastToRoom b s namespace room event args =
     (case Handler_Send b room event args (getNamespaceHandler s namespace) of
        (ok, to, nh) \<Rightarrow> (ok, to, putHandler s namespace nh))"

definition BroadcastToNamespace ::
  "bus \<Rightarrow> Server \<Rightarrow> string \<Rightarrow> string \<Rightarrow> val list \<Rightarrow> bool \<times> Conn list \<times> Server" where
  "BroadcastToNamespace b s namespace event args =
     (case Handler_SendAll b event args (getNamespaceHandler s namespace) of
        (ok, to, nh) \<Rightarrow> (ok, to, putHandler s namespace nh))"

definition RoomLen :: "bus \<Rightarrow> Server \<Rightarrow> string \<Rightarrow> string \<Rightarrow> int outcome \<times> Server" where
  "RoomLen b s namespace room =
     (case Handler_Len b room (getNamespaceHandler s namespace) of
        (res, nh) \<Rightarrow> (res, putHandler s namespace nh))"

definition Rooms :: "bus \<Rightarrow> Server \<Rightarrow> string \<Rightarrow> string list outcome \<times> Server" where
  "Rooms b s namespace =
     (case Handler_Rooms b None (getNamespaceHandler s namespace) of
        (res, nh) \<Rightarrow> (res, putHandler s namespace nh))"

definition ForEach :: "Server \<Rightarrow> string \<Rightarrow> string \<Rightarrow> bool \<times> Conn list" where
  "ForEach s namespace room = Handler_ForEach room (getNamespaceHandler s namespace)"

section \<open>Packets and the namespace-connection view (conn\_nsp.go)\<close>

text \<open>
  Modelled from the spec: the parser package, which declares the packet types, is not
  among the sources. The code names \<^verbatim>\<open>Connect\<close>, \<^verbatim>\<open>Disconnect\<close>, \<^verbatim>\<open>Event\<close>,
  \<^verbatim>\<open>Ack\<close> and \<^verbatim>\<open>Error\<close>; the spec lists the two binary types with them.
\<close>

datatype packetType = Connect | Disconnect | Event | Ack | Error | BinaryEvent | BinaryAck

text \<open>
  The header of a Socket.IO packet with the fields that the code reads and writes:
  \<^verbatim>\<open>Type\<close>, \<^verbatim>\<open>Namespace\<close>, \<^verbatim>\<open>ID\<close> (a \<^verbatim>\<open>uint64\<close>, here \<open>PacketID\<close>) and
  \<^verbatim>\<open>NeedAck\<close>; and the payload handed to the writer.
\<close>

record Header =
  Type :: packetType
  Namespace :: string
  PacketID :: "64 word"
  NeedAck :: bool

record Payload =
  Header :: Header
  Data :: "val list"
  Args :: "val list"

text \<open>What \<^verbatim>\<open>newErrorMessage\<close> builds: the namespace and the error that \<^verbatim>\<open>serveError\<close> reads.\<close>

datatype errorMessage = newErrorMessage (msgNamespace: string) (msgErr: error)

text \<open>
  The view of one connection in one namespace. Its pointer to the connection is the
  connection record that holds the view, and its pointer to the broadcaster is the
  broadcaster of the handler registered for its namespace (the view is built from
  \<^verbatim>\<open>handler.broadcast\<close>, and a registered handler is never replaced). The counter
  \<^verbatim>\<open>pkgID\<close> is an \<^verbatim>\<open>atomic.Uint64\<close>: adding 1 wraps at \<open>2^64\<close>. The map \<^verbatim>\<open>ack\<close>
  only ever receives values built by \<^verbatim>\<open>newAckFunc\<close>.
\<close>

record namespaceConn =
  namespace :: string
  pkgID :: "64 word"
  ack :: "(64 word \<times> funcHandler) list"

definition newNamespaceConn :: "string \<Rightarrow> namespaceConn" where
  "newNamespaceConn ns = \<lparr>namespace = ns, pkgID = 0, ack = []\<rparr>"

text \<open>
  The Socket.IO connection. The two channels have capacity 1 and a task of their own
  that empties them; the model keeps the sequence of items handed over. \<open>quitChan\<close>
  tells whether the quit channel is closed and \<open>closeOnce\<close> whether the
  \<^verbatim>\<open>sync.Once\<close> has fired. The engine connection is given by its id, by what its
  \<^verbatim>\<open>Close\<close> returns and by the number of times \<^verbatim>\<open>Close\<close> was called on it.
  \<open>handlers\<close> is the registry shared with the server, and \<open>calls\<close> logs the
  invocations of the user's functions.
\<close>

record conn =
  engineID :: string
  engineCloseResult :: "error option"
  engineClosed :: nat
  writeChan :: "Payload list"
  errorChan :: "errorMessage list"
  quitChan :: bool
  closeOnce :: bool
  handlers :: Handlers
  namespaceConns :: "(string \<times> namespaceConn) list"
  calls :: "callback list"

definition NewConn :: "string \<Rightarrow> error option \<Rightarrow> Handlers \<Rightarrow> conn" where
  "NewConn sid closeErr hs =
     \<lparr>engineID = sid, engineCloseResult = closeErr, engineClosed = 0, writeChan = [],
      errorChan = [], quitChan = False, closeOnce = False, handlers = hs,
      namespaceConns = [], calls = []\<rparr>"

definition namespaceConns_Get :: "conn \<Rightarrow> string \<Rightarrow> namespaceConn option" where
  "namespaceConns_Get c ns = map_of (namespaceConns c) ns"

definition namespaceConns_Set :: "string \<Rightarrow> namespaceConn \<Rightarrow> conn \<Rightarrow> conn" where
  "namespaceConns_Set ns nc c = c\<lparr>namespaceConns := AList.update ns nc (namespaceConns c)\<rparr>"

definition namespaceConns_Delete :: "string \<Rightarrow> conn \<Rightarrow> conn" where
  "namespaceConns_Delete ns c = c\<lparr>namespaceConns := AList.delete ns (namespaceConns c)\<rparr>"

text \<open>
  \<^verbatim>\<open>write\<close>, \<^verbatim>\<open>writeWithArgs\<close> and \<^verbatim>\<open>onError\<close> select between the closed quit
  channel and the send. Once the quit channel is closed the tasks that read the two
  channels have returned, so an item sent then is never processed: the model drops it.
\<close>

definition conn_write :: "Header \<Rightarrow> val list \<Rightarrow> conn \<Rightarrow> conn" where
  "conn_write header args c =
     (if quitChan c then c
      else c\<lparr>writeChan := writeChan c @ [\<lparr>Header = header, Data = args, Args = []\<rparr>]\<rparr>)"

definition conn_writeWithArgs :: "Header \<Rightarrow> val list \<Rightarrow> conn \<Rightarrow> conn" where
  "conn_writeWithArgs header args c =
     (if quitChan c then c
      else c\<lparr>writeChan := writeChan c @ [\<lparr>Header = header, Data = [], Args = args\<rparr>]\<rparr>)"

definition conn_onError :: "string \<Rightarrow> error \<Rightarrow> conn \<Rightarrow> conn" where
  "conn_onError ns err c =
     (if quitChan c then c else c\<lparr>errorChan := errorChan c @ [newErrorMessage ns err]\<rparr>)"

text \<open>The handle under which the view of namespace \<open>ns\<close> is stored in rooms.\<close>

definition viewHandle :: "conn \<Rightarrow> string \<Rightarrow> Conn" where
  "viewHandle c ns = Conn (engineID c) ns"

definition updateBroadcast :: "string \<Rightarrow> (Broadcaster \<Rightarrow> Broadcaster) \<Rightarrow> Handlers \<Rightarrow> Handlers" where
  "updateBroadcast ns g hs =
     (case map_of hs ns of
        None \<Rightarrow> hs
      | Some nh \<Rightarrow> AList.update ns (nh\<lparr>broadcast := g (broadcast nh)\<rparr>) hs)"

definition namespaceConn_Join :: "string \<Rightarrow> string \<Rightarrow> conn \<Rightarrow> conn" where
  "namespaceConn_Join room ns c =
     c\<lparr>handlers := updateBroadcast ns (Broadcaster_Join room (viewHandle c ns)) (handlers c)\<rparr>"

definition namespaceConn_Leave :: "string \<Rightarrow> string \<Rightarrow> conn \<Rightarrow> conn" where
  "namespaceConn_Leave room ns c =
     c\<lparr>handlers := updateBroadcast ns (Broadcaster_Leave room (viewHandle c ns)) (handlers c)\<rparr>"

definition namespaceConn_LeaveAll :: "string \<Rightarrow> conn \<Rightarrow> conn" where
  "namespaceConn_LeaveAll ns c =
     c\<lparr>handlers := updateBroadcast ns (Broadcaster_LeaveAll (viewHandle c ns)) (handlers c)\<rparr>"





section \<open>Dispatch in the handler\<close>

definition getEventTypes :: "Handler \<Rightarrow> string \<Rightarrow> rtype list" where
  "getEventTypes nh event =
     (case map_of (events nh) event of Some namespaceHandler \<Rightarrow> argTypes namespaceHandler | None \<Rightarrow> [])"

text \<open>
  The three readers of decoded arguments assert the types that the decoder was asked
  for (a map, or a string and a map); a missing argument is the zero value.
\<close>

definition getDispatchData :: "val list \<Rightarrow> val" where
  "getDispatchData args = (case args of [] \<Rightarrow> VNil | a # _ \<Rightarrow> a)"

definition getDispatchMessage :: "val list \<Rightarrow> string" where
  "getDispatchMessage args = (case args of VString msg # _ \<Rightarrow> msg | _ \<Rightarrow> [])"

definition getDispatchDisconnectData :: "val list \<Rightarrow> string \<times> val" where
  "getDispatchDisconnectData args =
     (getDispatchMessage args, case args of _ # details # _ \<Rightarrow> details | _ \<Rightarrow> VNil)"

text \<open>
  \<^verbatim>\<open>Handler.dispatch\<close> and \<^verbatim>\<open>Handler.dispatchEvent\<close> return the values, the error,
  and the invocations of user functions they made.
\<close>

definition dispatch ::
  "env \<Rightarrow> Handler \<Rightarrow> Conn \<Rightarrow> Header \<Rightarrow> val list \<Rightarrow> val list \<times> error option \<times> callback list" where
  "dispatch e nh cn header args =
     (case Type header of
        Connect \<Rightarrow>
          (case onConnect nh of
             Some cb \<Rightarrow> ([], connectResult e cb cn (getDispatchData args),
                         [CalledOnConnect cb cn (getDispatchData args)])
           | None \<Rightarrow> ([], None, []))
      | Disconnect \<Rightarrow>
          (case onDisconnect nh of
             Some cb \<Rightarrow>
               (case getDispatchDisconnectData args of
                  (reason, details) \<Rightarrow> ([], None, [CalledOnDisconnect cb cn reason details]))
           | None \<Rightarrow> ([], None, []))
      | Error \<Rightarrow>
          (case onError nh of
             Some cb \<Rightarrow>
               ([], Some ErrInvalidPacketType,
                [CalledOnError cb cn
                   (ErrorText (if getDispatchMessage args = [] then ''parser error gotAck''
                               else getDispatchMessage args))])
           | None \<Rightarrow> ([], Some ErrInvalidPacketType, []))
      | _ \<Rightarrow> ([], Some ErrInvalidPacketType, []))"

definition dispatchEvent ::
  "env \<Rightarrow> Handler \<Rightarrow> Conn \<Rightarrow> string \<Rightarrow> val list \<Rightarrow> val list \<times> error option \<times> callback list" where
  "dispatchEvent e nh cn event args =
     (case map_of (events nh) event of
        None \<Rightarrow> ([], None, [])
      | Some namespaceHandler \<Rightarrow>
          (case funcHandler_Call e namespaceHandler (VConn cn # args) of
             (ret, err) \<Rightarrow> (ret, err, [CalledFunc (f namespaceHandler) (VConn cn # args)])))"

section \<open>The packet handlers and the reader\<close>

definition defaultHeaderType :: "rtype list" where
  "defaultHeaderType = [TyMap]"

definition disconnectHeaderType :: "rtype list" where
  "disconnectHeaderType = [TyString, TyMap]"

text \<open>
  Every handler takes the header, the raw payload that the decoder holds for the packet,
  and the connection; it returns its error (nil when \<open>None\<close>) and the connection.
\<close>

definition ackPacketHandler :: "env \<Rightarrow> Header \<Rightarrow> string \<Rightarrow> conn \<Rightarrow> error option \<times> conn" where
  "ackPacketHandler e header raw c =
     (case namespaceConns_Get c (Namespace header) of
        None \<Rightarrow> (None, c)
      | Some nc \<Rightarrow>
          (case map_of (ack nc) (PacketID header) of
             None \<Rightarrow> (None, c)
           | Some fh \<Rightarrow>
               (let c1 = namespaceConns_Set (Namespace header)
                           (nc\<lparr>ack := AList.delete (PacketID header) (ack nc)\<rparr>) c
                in (case DecodeArgs e (argTypes fh) raw of
                      Inl err \<Rightarrow> (None, conn_onError (namespace nc) err c1)
                    | Inr args \<Rightarrow>
                        (case funcHandler_Call e fh args of
                           (ret, err) \<Rightarrow>
                             (let c2 = c1\<lparr>calls := calls c1 @ [CalledFunc (f fh) args]\<rparr>
                              in (case err of
                                    Some er \<Rightarrow> (None, conn_onError (namespace nc) er c2)
                                  | None \<Rightarrow> (None, c2))))))))"

definition eventPacketHandler :: "env \<Rightarrow> string \<Rightarrow> Header \<Rightarrow> string \<Rightarrow> conn \<Rightarrow> error option \<times> conn" where
  "eventPacketHandler e event header raw c =
     (case namespaceConns_Get c (Namespace header) of
        None \<Rightarrow> (None, c)
      | Some nc \<Rightarrow>
          (case Handlers_Get (handlers c) (Namespace header) of
             None \<Rightarrow> (None, c)
           | Some handler \<Rightarrow>
               (case DecodeArgs e (getEventTypes handler event) raw of
                  Inl err \<Rightarrow> (Some errDecodeArgs, conn_onError (Namespace header) err c)
                | Inr args \<Rightarrow>
                    (case dispatchEvent e handler (viewHandle c (namespace nc)) event args of
                       (ret, err, log) \<Rightarrow>
                         (let c1 = c\<lparr>calls := calls c @ log\<rparr>
                          in (case err of
                                Some er \<Rightarrow>
                                  (Some errHandleDispatch, conn_onError (Namespace header) er c1)
                              | None \<Rightarrow>
                                  if length ret > 0
                                  then (None, conn_write (header\<lparr>Type := Ack\<rparr>) ret c1)
                                  else (None, c1)))))))"

definition connectPacketHandler :: "env \<Rightarrow> Header \<Rightarrow> string \<Rightarrow> conn \<Rightarrow> error option \<times> conn" where
  "connectPacketHandler e header raw c =
     (case DecodeArgs e defaultHeaderType raw of
        Inl err \<Rightarrow> (Some errDecodeArgs, conn_onError (Namespace header) err c)
      | Inr args \<Rightarrow>
          (case Handlers_Get (handlers c) (Namespace header) of
             None \<Rightarrow>
               (Some errFailedConnectNamespace,
                conn_onError (Namespace header) errFailedConnectNamespace c)
           | Some handler \<Rightarrow>
               (case (case namespaceConns_Get c (Namespace header) of
                        Some nc \<Rightarrow> (nc, c)
                      | None \<Rightarrow>
                          (newNamespaceConn (Namespace header),
                           namespaceConn_Join (engineID c) (Namespace header)
                             (namespaceConns_Set (Namespace header)
                                (newNamespaceConn (Namespace header)) c))) of
                  (nc, c1) \<Rightarrow>
                    (case dispatch e handler (viewHandle c (namespace nc)) header args of
                       (ret, err, log) \<Rightarrow>
                         (let c2 = c1\<lparr>calls := calls c1 @ log\<rparr>
                          in (case err of
                                Some er \<Rightarrow>
                                  (Some errHandleDispatch, conn_onError (Namespace header) er c2)
                              | None \<Rightarrow>
                                  (None, conn_writeWithArgs header
                                           [VMap [(''sid'', VString (engineID c))]] c2)))))))"

definition disconnectPacketHandler :: "env \<Rightarrow> Header \<Rightarrow> string \<Rightarrow> conn \<Rightarrow> error option \<times> conn" where
  "disconnectPacketHandler e header raw c =
     (case DecodeArgs e disconnectHeaderType raw of
        Inl err \<Rightarrow> (Some errDecodeArgs, conn_onError (Namespace header) err c)
      | Inr args \<Rightarrow>
          (case namespaceConns_Get c (Namespace header) of
             None \<Rightarrow> (None, c)
           | Some nc \<Rightarrow>
               (let c1 = namespaceConns_Delete (Namespace header)
                           (namespaceConn_LeaveAll (namespace nc) c)
                in (case Handlers_Get (handlers c1) (Namespace header) of
                      None \<Rightarrow> (None, c1)
                    | Some handler \<Rightarrow>
                        (case dispatch e handler (viewHandle c (namespace nc)) header args of
                           (ret, err, log) \<Rightarrow>
                             (let c2 = c1\<lparr>calls := calls c1 @ log\<rparr>
                              in (case err of
                                    Some er \<Rightarrow>
                                      (Some errHandleDispatch,
                                       conn_onError (Namespace header) er c2)
                                  | None \<Rightarrow> (None, c2))))))))"

text \<open>
  What the decoder yields for the reader, one item per round of the loop: an error of
  \<^verbatim>\<open>DecodeHeader\<close>, or a header with the event name and the raw payload.
\<close>

datatype inbound = HeaderError error | Packet Header string string

datatype reader = ReaderWaiting | ReaderReturned

definition handlePacket :: "env \<Rightarrow> Header \<Rightarrow> string \<Rightarrow> string \<Rightarrow> conn \<Rightarrow> error option \<times> conn" where
  "handlePacket e header event raw c =
     (case Type header of
        Ack \<Rightarrow> ackPacketHandler e header raw c
      | Connect \<Rightarrow> connectPacketHandler e header raw c
      | Disconnect \<Rightarrow> disconnectPacketHandler e header raw c
      | Event \<Rightarrow> eventPacketHandler e event header raw c
      | _ \<Rightarrow> (None, c))"

text \<open>The reader rewrites the alias of the root namespace before it dispatches.\<close>

definition canonicalHeader :: "Header \<Rightarrow> Header" where
  "canonicalHeader header =
     (if Namespace header = aliasRootNamespace then header\<lparr>Namespace := rootNamespace\<rparr> else header)"

text \<open>
  \<^verbatim>\<open>serveRead\<close>. The loop returns when the quit channel is closed, when the header
  cannot be decoded and when a packet handler returns an error; it calls nothing else on
  its way out. The model returns whether the loop has returned or waits for input, the
  input it has not read, and the connection.
\<close>

fun serveRead :: "env \<Rightarrow> inbound list \<Rightarrow> conn \<Rightarrow> reader \<times> inbound list \<times> conn" where
  "serveRead e [] c = (if quitChan c then ReaderReturned else ReaderWaiting, [], c)"
| "serveRead e (x # rest) c =
     (if quitChan c then (ReaderReturned, x # rest, c)
      else (case x of
              HeaderError err \<Rightarrow> (ReaderReturned, rest, conn_onError rootNamespace err c)
            | Packet header0 event raw \<Rightarrow>
                (case handlePacket e (canonicalHeader header0) event raw c of
                   (Some err, c1) \<Rightarrow> (ReaderReturned, rest, conn_onError rootNamespace err c1)
                 | (None, c1) \<Rightarrow> serveRead e rest c1)))"

section \<open>The error dispatcher and the close sequence\<close>

text \<open>
  \<^verbatim>\<open>serveError\<close> takes one message after the other from the error channel and calls
  the error callback of the namespace when the namespace has a handler, the handler has
  the callback, and the connection has a view for the namespace.
\<close>

definition serveError_message :: "errorMessage \<Rightarrow> conn \<Rightarrow> conn" where
  "serveError_message errMsg c =
     (case Handlers_Get (handlers c) (msgNamespace errMsg) of
        None \<Rightarrow> c
      | Some handler \<Rightarrow>
          (case onError handler of
             None \<Rightarrow> c
           | Some cb \<Rightarrow>
               (case namespaceConns_Get c (msgNamespace errMsg) of
                  None \<Rightarrow> c
                | Some nsConn \<Rightarrow>
                    c\<lparr>calls := calls c @
                         [CalledOnError cb (viewHandle c (namespace nsConn)) (msgErr errMsg)]\<rparr>)))"

definition serveError :: "conn \<Rightarrow> conn" where
  "serveError c =
     (if quitChan c then c else fold serveError_message (errorChan c) (c\<lparr>errorChan := []\<rparr>))"

text \<open>The body of the close sequence for one view, as \<^verbatim>\<open>Range\<close> calls it.\<close>

definition closeView :: "string \<times> namespaceConn \<Rightarrow> conn \<Rightarrow> conn" where
  "closeView entry c =
     (case entry of
        (ns, nc) \<Rightarrow>
          (let c1 = namespaceConn_LeaveAll (namespace nc) c
           in (case Handlers_Get (handlers c1) ns of
                 None \<Rightarrow> c1
               | Some nh \<Rightarrow>
                   (case onDisconnect nh of
                      None \<Rightarrow> c1
                    | Some cb \<Rightarrow>
                        c1\<lparr>calls := calls c1 @
                             [CalledOnDisconnect cb (viewHandle c (namespace nc))
                                clientDisconnectMsg VNil]\<rparr>))))"

text \<open>
  \<^verbatim>\<open>conn.Close\<close>: \<^verbatim>\<open>closeOnce.Do\<close> runs the body on the first call only; a later
  call returns the zero value of \<^verbatim>\<open>err\<close>.
\<close>

definition Close :: "conn \<Rightarrow> error option \<times> conn" where
  "Close c =
     (if closeOnce c then (None, c)
      else (let c1 = fold closeView (namespaceConns c) c
            in (engineCloseResult c1,
                c1\<lparr>engineClosed := engineClosed c1 + 1, quitChan := True, closeOnce := True\<rparr>)))"

fun closeTimes :: "nat \<Rightarrow> conn \<Rightarrow> error option list \<times> conn" where
  "closeTimes 0 c = ([], c)"
| "closeTimes (Suc n) c =
     (case Close c of (err, c1) \<Rightarrow> (case closeTimes n c1 of (errs, c2) \<Rightarrow> (err # errs, c2)))"

section \<open>Example states\<close>

text \<open>
  A server with one namespace \<open>/chat\<close> and no Redis adapter. The room \<open>r1\<close> holds the
  sessions \<open>sid-1\<close> and \<open>sid-2\<close>; \<open>sid-1\<close> is also in its personal room. The event
  \<open>boom\<close> is bound to function 7 and \<open>echo\<close> to function 8; the disconnect callback is
  function 1 and the error callback function 2.
\<close>

definition exHandler :: Handler where
  "exHandler =
     \<lparr>broadcast = Broadcast \<lparr>nsp = [], uid = ''node-1'',
                    roomsSync = [(''sid-1'', [(''sid-1'', Conn ''sid-1'' ''/chat'')]),
                                 (''r1'', [(''sid-1'', Conn ''sid-1'' ''/chat''),
                                           (''sid-2'', Conn ''sid-2'' ''/chat'')])]\<rparr>,
      events = [(''boom'', \<lparr>argTypes = [TyString], f = 7\<rparr>),
                (''echo'', \<lparr>argTypes = [TyString], f = 8\<rparr>)],
      onConnect = None, onDisconnect = Some 1, onError = Some 2\<rparr>"

definition exServer :: Server where
  "exServer = \<lparr>nspHandlers = [(''/chat'', exHandler)], redisAdapter = None\<rparr>"

text \<open>The connection of session \<open>sid-1\<close>, with its view of \<open>/chat\<close>.\<close>

definition exConn :: conn where
  "exConn = (NewConn ''sid-1'' None [(''/chat'', exHandler)])
              \<lparr>namespaceConns := [(''/chat'', newNamespaceConn ''/chat'')]\<rparr>"

text \<open>
  A decoder that rejects the payload \<open>malformed\<close> and otherwise gives every requested
  type the payload as a string; function 7 panics, function 8 returns its arguments
  behind the connection, and every other function returns nothing.
\<close>

definition exEnv :: env where
  "exEnv =
     \<lparr>DecodeArgs = (\<lambda>types raw. if raw = ''malformed'' then Inl (ErrorText ''invalid character'')
                                 else Inr (map (\<lambda>t. VString raw) types)),
      reflectCall = (\<lambda>fid args. if fid = 7 then PanicsValue ''boom''
                                 else if fid = 8 then Returns (tl args) else Returns []),
      connectResult = (\<lambda>cb cn data. None)\<rparr>"

text \<open>A bus on which two nodes subscribe to the request channel and nothing fails.\<close>

definition exBus :: bus where
  "exBus = \<lparr>newV4UUID = ''req-1'', marshalFails = False,
            pubSubNumSub = Inr [(''socket.io-request#/chat'', 2)],
            publishError = None, incoming = []\<rparr>"


text \<open>Headers of packets for the namespace \<open>/chat\<close> and for a namespace without handler.\<close>

definition chatEvent :: Header where
  "chatEvent = \<lparr>Type = Event, Namespace = ''/chat'', PacketID = 0, NeedAck = False\<rparr>"


definition adminConnect :: Header where
  "adminConnect = \<lparr>Type = Connect, Namespace = ''/admin'', PacketID = 0, NeedAck = False\<rparr>"


section \<open>The invariant of the room index\<close>

lemma innerOk_empty: "innerOk newRoomMap"
  by (simp add: innerOk_def newRoomMap_def)

lemma connMap_join_ne: "connMap_join c cm \<noteq> []"
  by (simp add: connMap_join_def)

lemma connMap_join_distinct: "distinct (map fst cm) \<Longrightarrow> distinct (map fst (connMap_join c cm))"
  by (simp add: connMap_join_def distinct_update)

lemma connMap_leave_distinct: "distinct (map fst cm) \<Longrightarrow> distinct (map fst (connMap_leave c cm))"
  by (simp add: connMap_leave_def distinct_delete)

lemma map_of_roomMap_join:
  "map_of (roomMap_join room c rm) =
     (map_of rm)(room \<mapsto> connMap_join c (case map_of rm room of None \<Rightarrow> newConnMap | Some cm \<Rightarrow> cm))"
  by (simp add: roomMap_join_def update_conv' split: option.split)

lemma map_of_roomMap_leave:
  "map_of (roomMap_leave room c rm) =
     (case map_of rm room of
        None \<Rightarrow> map_of rm
      | Some cm \<Rightarrow> if connMap_leave c cm = [] then (map_of rm)(room := None)
                   else (map_of rm)(room \<mapsto> connMap_leave c cm))"
  by (simp add: roomMap_leave_def update_conv' delete_conv' connMap_len_def Let_def
        split: option.split)

lemma innerOk_join: "innerOk rm \<Longrightarrow> innerOk (roomMap_join room c rm)"
  unfolding innerOk_def map_of_roomMap_join
  by (auto simp: connMap_join_ne connMap_join_distinct newConnMap_def
        split: option.splits if_splits)

lemma innerOk_leave: "innerOk rm \<Longrightarrow> innerOk (roomMap_leave room c rm)"
  unfolding innerOk_def map_of_roomMap_leave
  by (auto simp: connMap_leave_distinct split: option.splits if_splits)

lemma innerOk_applyOp: "innerOk rm \<Longrightarrow> innerOk (applyOp x rm)"
  by (cases x) (simp_all add: innerOk_join innerOk_leave)

lemma set_connMap_join: "fst ` set (connMap_join c cm) = insert (ID c) (fst ` set cm)"
  by (simp add: connMap_join_def dom_update)

lemma set_connMap_leave: "fst ` set (connMap_leave c cm) = fst ` set cm - {ID c}"
  by (auto simp: connMap_leave_def AList.delete_eq)

lemma connMap_leave_Nil: "connMap_leave c cm = [] \<Longrightarrow> fst ` set cm - {ID c} = {}"
  using set_connMap_leave [of c cm] by simp

lemma members_join:
  "members (roomMap_join room c rm) = (members rm)(room := insert (ID c) (members rm room))"
  by (rule ext)
     (simp add: members_def map_of_roomMap_join set_connMap_join newConnMap_def
        split: option.split)

lemma members_leave:
  "members (roomMap_leave room c rm) = (members rm)(room := members rm room - {ID c})"
  by (rule ext)
     (simp add: members_def map_of_roomMap_leave set_connMap_leave connMap_leave_Nil
        split: option.split)

lemma members_applyOp: "members (applyOp x rm) = joinedStep x (members rm)"
  by (cases x) (simp_all add: members_join members_leave)

lemma fold_applyOp:
  "innerOk rm \<Longrightarrow>
   innerOk (fold applyOp ops rm) \<and>
   members (fold applyOp ops rm) = fold joinedStep ops (members rm)"
  by (induction ops arbitrary: rm) (simp_all add: innerOk_applyOp members_applyOp)

lemma runOps_members: "innerOk (runOps ops) \<and> members (runOps ops) = joinedNotLeft ops"
proof -
  have "members newRoomMap = (\<lambda>_. {})"
    by (rule ext) (simp add: members_def newRoomMap_def)
  then show ?thesis
    using fold_applyOp [OF innerOk_empty, of ops] by (simp add: runOps_def joinedNotLeft_def)
qed

lemma roomCard_members: "innerOk rm \<Longrightarrow> roomCard rm r = card (members rm r)"
proof (cases "map_of rm r")
  case None
  then show ?thesis by (simp add: roomCard_def members_def getConnections_def)
next
  case (Some cm)
  assume "innerOk rm"
  with Some have "distinct (map fst cm)" by (simp add: innerOk_def)
  then have "card (set (map fst cm)) = length (map fst cm)" by (rule distinct_card)
  with Some show ?thesis
    by (simp add: roomCard_def members_def getConnections_def connMap_len_def)
qed

lemma roomExists_roomCard: "innerOk rm \<Longrightarrow> roomExists rm r = (0 < roomCard rm r)"
  by (auto simp: innerOk_def roomExists_def roomCard_def getConnections_def connMap_len_def
        split: option.split)

lemma leave_no_empty: "getConnections (roomMap_leave room c rm) room \<noteq> Some []"
  by (simp add: getConnections_def map_of_roomMap_leave split: option.split)

subsection \<open>What the two enumerations of the local broadcaster compute\<close>

text \<open>
  When no room is named by the empty string, the padding of \<^verbatim>\<open>getKeysOfMap\<close> is
  skipped by the lookup of \<^verbatim>\<open>roomMap.forEach\<close>: \<^verbatim>\<open>allRooms\<close> lists the keys, and
  \<^verbatim>\<open>lenRoom\<close> counts the keys equal to its argument, which is 1 for a room that exists
  and 0 otherwise, whatever the number of members.
\<close>

lemma forEach_loop_padding:
  "map_of rm [] = None \<Longrightarrow>
   roomMap_forEach_loop h rm (replicate n [] @ ks) acc = roomMap_forEach_loop h rm ks acc"
  by (induction n) (simp_all add: getConnections_def)

lemma forEach_loop_collect:
  "\<forall>k \<in> set ks. map_of rm k \<noteq> None \<Longrightarrow>
   roomMap_forEach_loop (\<lambda>room _ rooms. (True, rooms @ [room])) rm ks acc = acc @ ks"
  by (induction ks arbitrary: acc) (auto simp add: getConnections_def)

lemma map_of_keys: "\<forall>k \<in> set (map fst rm). map_of rm k \<noteq> None"
  by (induction rm) auto

lemma allRooms_without_empty_name:
  "map_of (roomsSync bc) [] = None \<Longrightarrow> allRooms bc = map fst (roomsSync bc)"
  using forEach_loop_collect [OF map_of_keys, of "roomsSync bc" "[]"]
  by (simp add: allRooms_def roomMap_forEach_def listRoomID_def getKeysOfMap_def
        forEach_loop_padding)

lemma forEach_loop_count:
  "\<forall>k \<in> set ks. map_of rm k \<noteq> None \<Longrightarrow>
   roomMap_forEach_loop (\<lambda>room _ res. (True, if room = roomID then res + 1 else res)) rm ks (acc::int)
     = acc + int (count_list ks roomID)"
  by (induction ks arbitrary: acc) (auto simp add: getConnections_def)

lemma lenRoom_counts_names:
  "map_of (roomsSync bc) [] = None \<Longrightarrow>
   lenRoom bc roomID = int (count_list (map fst (roomsSync bc)) roomID)"
  by (simp add: lenRoom_def roomMap_forEach_def listRoomID_def getKeysOfMap_def
        forEach_loop_padding forEach_loop_count map_of_keys)

lemma count_list_distinct: "distinct xs \<Longrightarrow> count_list xs x = (if x \<in> set xs then 1 else 0)"
  by (induction xs) auto

lemma lenRoom_at_most_one:
  "map_of (roomsSync bc) [] = None \<Longrightarrow> distinct (map fst (roomsSync bc)) \<Longrightarrow>
   lenRoom bc roomID = (if roomExists (roomsSync bc) roomID then 1 else 0)"
  by (simp add: lenRoom_counts_names count_list_distinct roomExists_def getConnections_def
        map_of_eq_None_iff)

section \<open>Claims about the room index and the local broadcaster\<close>

text \<open>
  C1 (the code at the failing input). Two distinct connections join room \<open>r1\<close> of a
  fresh local broadcaster; the claim asks \<^verbatim>\<open>lenRoom\<close> for 2, the cardinality of the
  room. The code counts the rooms named \<open>r1\<close> and returns 1.
\<close>

theorem lenRoom_two_members_is_one:
  "lenRoom
     (broadcastLocal_join ''r1'' (Conn ''B'' ''/chat'')
        (broadcastLocal_join ''r1'' (Conn ''A'' ''/chat'') (newBroadcastLocal ''/chat'' ''uid'')))
     ''r1'' = 1"
  by (simp add: lenRoom_def broadcastLocal_join_def newBroadcastLocal_def roomMap_join_def
        newRoomMap_def connMap_join_def newConnMap_def roomMap_forEach_def listRoomID_def
        getKeysOfMap_def getConnections_def)

text \<open>
  C3. For every finite sequence of join and leave operations on a fresh room index and
  after each of its operations (every prefix \<open>take n ops\<close>), the cardinality of the
  member map of a room is the number of connections that joined the room and have not
  left it, and the entry of the room exists exactly when that number is positive.
  A leave is one step under the write lock, and after it the room never holds an empty
  member map, from whatever index the step starts.
\<close>

theorem room_index_cardinality:
  "roomCard (runOps (take n ops)) r = card (joinedNotLeft (take n ops) r) \<and>
   roomExists (runOps (take n ops)) r = (0 < card (joinedNotLeft (take n ops) r)) \<and>
   getConnections (roomMap_leave room c rm) room \<noteq> Some []"
  using runOps_members [of "take n ops"] roomCard_members [of "runOps (take n ops)" r]
    roomExists_roomCard [of "runOps (take n ops)" r] leave_no_empty [of room c rm]
  by simp

theorem room_index_cardinality_witness:
  "roomCard (runOps (take 2 [Join ''r'' (Conn ''A'' ''/''), Join ''r'' (Conn ''B'' ''/''),
      Leave ''r'' (Conn ''A'' ''/''), Leave ''r'' (Conn ''B'' ''/'')])) ''r'' = 2 \<and>
   roomExists (runOps (take 2 [Join ''r'' (Conn ''A'' ''/''), Join ''r'' (Conn ''B'' ''/''),
      Leave ''r'' (Conn ''A'' ''/''), Leave ''r'' (Conn ''B'' ''/'')])) ''r'' \<and>
   getConnections (roomMap_leave ''r'' (Conn ''A'' ''/'') [(''r'', [(''A'', Conn ''A'' ''/'')])]) ''r''
     = None"
  using room_index_cardinality [of 2
      "[Join ''r'' (Conn ''A'' ''/''), Join ''r'' (Conn ''B'' ''/''),
        Leave ''r'' (Conn ''A'' ''/''), Leave ''r'' (Conn ''B'' ''/'')]" "''r''"
      "''r''" "Conn ''A'' ''/''" "[(''r'', [(''A'', Conn ''A'' ''/'')])]"]
  by (simp add: joinedNotLeft_def roomMap_leave_def connMap_leave_def connMap_len_def
        getConnections_def)

text \<open>
  C4 (the code at the failing input). One connection joins the room whose name is the
  empty string. The index has the single key \<open>[]\<close>; \<^verbatim>\<open>getKeysOfMap\<close> returns that
  key behind one empty slot, both pass the lookup of \<^verbatim>\<open>roomMap.forEach\<close>, and
  \<^verbatim>\<open>allRooms\<close> returns the room twice.
\<close>

theorem allRooms_empty_name_twice:
  "allRooms (broadcastLocal_join [] (Conn ''A'' ''/chat'') (newBroadcastLocal ''/chat'' ''uid''))
     = [[], []]"
  by (simp add: allRooms_def broadcastLocal_join_def newBroadcastLocal_def roomMap_join_def
        newRoomMap_def connMap_join_def newConnMap_def roomMap_forEach_def listRoomID_def
        getKeysOfMap_def getConnections_def)

section \<open>Claims about the server and the close sequence\<close>

text \<open>
  C9. When no handler is registered for a namespace (the lookup of the server yields
  nil), \<^verbatim>\<open>JoinRoom\<close>, \<^verbatim>\<open>LeaveRoom\<close>, \<^verbatim>\<open>LeaveAllRooms\<close>, \<^verbatim>\<open>ClearRoom\<close>,
  \<^verbatim>\<open>BroadcastToRoom\<close>, \<^verbatim>\<open>BroadcastToNamespace\<close> and \<^verbatim>\<open>ForEach\<close> return false,
  \<^verbatim>\<open>RoomLen\<close> returns -1 and \<^verbatim>\<open>Rooms\<close> returns the empty (nil) list; the server,
  and with it every room, is left as it was, nothing is emitted and no function is
  called on a member.
\<close>

theorem unregistered_namespace_room_operations:
  assumes "getNamespaceHandler s ns = None"
  shows "JoinRoom s ns room cn = (False, s) \<and>
         LeaveRoom s ns room cn = (False, s) \<and>
         LeaveAllRooms s ns cn = (False, s) \<and>
         ClearRoom b s ns room = (False, s) \<and>
         BroadcastToRoom b s ns room event args = (False, [], s) \<and>
         BroadcastToNamespace b s ns event args = (False, [], s) \<and>
         ForEach s ns room = (False, []) \<and>
         RoomLen b s ns room = (Returned (- 1), s) \<and>
         Rooms b s ns = (Returned [], s)"
  using assms
  by (simp add: JoinRoom_def LeaveRoom_def LeaveAllRooms_def ClearRoom_def BroadcastToRoom_def
        BroadcastToNamespace_def ForEach_def RoomLen_def Rooms_def)

theorem unregistered_namespace_room_operations_witness:
  "getNamespaceHandler exServer ''/admin'' = None \<and>
   JoinRoom exServer ''/admin'' ''r1'' (Conn ''sid-3'' ''/admin'') = (False, exServer) \<and>
   RoomLen exBus exServer ''/admin'' ''r1'' = (Returned (- 1), exServer) \<and>
   Rooms exBus exServer ''/admin'' = (Returned [], exServer) \<and>
   fst (JoinRoom exServer ''/chat'' ''r1'' (Conn ''sid-3'' ''/chat''))"
proof -
  have h: "getNamespaceHandler exServer ''/admin'' = None"
    by (simp add: getNamespaceHandler_def Handlers_Get_def exServer_def aliasRootNamespace_def)
  have j: "fst (JoinRoom exServer ''/chat'' ''r1'' (Conn ''sid-3'' ''/chat''))"
    by (simp add: JoinRoom_def getNamespaceHandler_def Handlers_Get_def exServer_def
          aliasRootNamespace_def split: prod.split)
  show ?thesis
    using h j
      unregistered_namespace_room_operations [OF h, of "''r1''" "Conn ''sid-3'' ''/admin''" exBus]
    by simp
qed

lemma Close_closed: "closeOnce c \<Longrightarrow> Close c = (None, c)"
  by (simp add: Close_def)

lemma closeOnce_Close: "closeOnce (snd (Close c))"
  by (simp add: Close_def Let_def)

lemma closeTimes_closed: "closeOnce c \<Longrightarrow> closeTimes n c = (replicate n None, c)"
  by (induction n) (simp_all add: Close_closed)

lemma closeTimes_Suc: "closeTimes (Suc n) c = (fst (Close c) # replicate n None, snd (Close c))"
proof -
  obtain err c1 where c1: "Close c = (err, c1)" by (cases "Close c")
  then have "closeOnce c1" using closeOnce_Close [of c] by simp
  then have "closeTimes n c1 = (replicate n None, c1)" by (rule closeTimes_closed)
  with c1 show ?thesis by simp
qed

lemma Close_open:
  "\<not> closeOnce c \<Longrightarrow>
   snd (Close c) =
     (fold closeView (namespaceConns c) c)
       \<lparr>engineClosed := Suc (engineClosed (fold closeView (namespaceConns c) c)),
        quitChan := True, closeOnce := True\<rparr>"
  by (simp add: Close_def Let_def)

text \<open>
  C8. Of any number of calls of \<^verbatim>\<open>Close\<close> on a connection, one after the other, only
  the first can run the body: the connection after \<open>n + 1\<close> calls is the connection
  after the first call, and every later call returns nil. A call on a connection that
  was already closed changes nothing and returns nil. On a connection not yet closed the
  first call runs the body once: every view leaves all its rooms and the disconnect
  callback of its namespace, when there is one, is called with the reason
  \<open>client disconnected\<close> (\<open>closeView\<close>); then the session is closed and the quit latch
  is signalled.
\<close>

theorem close_runs_at_most_once:
  "closeTimes (Suc n) c = (fst (Close c) # replicate n None, snd (Close c)) \<and>
   Close (snd (Close c)) = (None, snd (Close c)) \<and>
   (\<not> closeOnce c \<longrightarrow>
      snd (Close c) =
        (fold closeView (namespaceConns c) c)
          \<lparr>engineClosed := Suc (engineClosed (fold closeView (namespaceConns c) c)),
           quitChan := True, closeOnce := True\<rparr>)"
  using closeTimes_Suc [of n c] Close_closed [OF closeOnce_Close, of c] Close_open [of c]
  by blast

theorem close_runs_at_most_once_witness:
  "\<not> closeOnce exConn \<and>
   fst (closeTimes (Suc (Suc 0)) exConn) = [None, None] \<and>
   calls (snd (closeTimes (Suc (Suc 0)) exConn)) =
     [CalledOnDisconnect 1 (Conn ''sid-1'' ''/chat'') ''client disconnected'' VNil] \<and>
   engineClosed (snd (closeTimes (Suc (Suc 0)) exConn)) = 1 \<and>
   Broadcaster_ForEach ''r1''
     (broadcast (the (Handlers_Get (handlers (snd (closeTimes (Suc (Suc 0)) exConn))) ''/chat'')))
     = [Conn ''sid-2'' ''/chat'']"
proof -
  have first: "calls (snd (Close exConn)) =
          [CalledOnDisconnect 1 (Conn ''sid-1'' ''/chat'') ''client disconnected'' VNil] \<and>
        engineClosed (snd (Close exConn)) = 1 \<and> \<not> closeOnce exConn \<and>
        fst (Close exConn) = None \<and>
        Broadcaster_ForEach ''r1''
          (broadcast (the (Handlers_Get (handlers (snd (Close exConn))) ''/chat'')))
          = [Conn ''sid-2'' ''/chat'']"
    by code_simp
  have "closeTimes (Suc (Suc 0)) exConn =
          (fst (Close exConn) # replicate (Suc 0) None, snd (Close exConn))"
    using close_runs_at_most_once [of "Suc 0" exConn] by blast
  with first show ?thesis by simp
qed

section \<open>Lemmas about the packet handlers\<close>

lemma dispatchEvent_unregistered:
  "map_of (events handler) event = None \<Longrightarrow> dispatchEvent e handler cn event args = ([], None, [])"
  by (simp add: dispatchEvent_def)

lemma getEventTypes_unregistered:
  "map_of (events handler) event = None \<Longrightarrow> getEventTypes handler event = []"
  by (simp add: getEventTypes_def)

lemma getEventTypes_registered:
  "map_of (events handler) event = Some fh \<Longrightarrow> getEventTypes handler event = argTypes fh"
  by (simp add: getEventTypes_def)

lemma eventPacketHandler_unregistered:
  assumes "namespaceConns_Get c (Namespace header) = Some nc"
    and "Handlers_Get (handlers c) (Namespace header) = Some handler"
    and "map_of (events handler) event = None"
    and "DecodeArgs e [] raw = Inr args"
  shows "eventPacketHandler e event header raw c = (None, c)"
  using assms
  by (simp add: eventPacketHandler_def getEventTypes_unregistered dispatchEvent_unregistered)

lemma canonicalHeader_Type: "Type (canonicalHeader header) = Type header"
  by (simp add: canonicalHeader_def)

lemma funcHandler_Call_recovered:
  "recovered (reflectCall e (f fh) xs) = Some err \<Longrightarrow> funcHandler_Call e fh xs = ([], Some err)"
  by (cases "reflectCall e (f fh) xs") (simp_all add: funcHandler_Call_def)

lemma eventPacketHandler_panic:
  assumes "\<not> quitChan c"
    and "namespaceConns_Get c (Namespace header) = Some nc"
    and "Handlers_Get (handlers c) (Namespace header) = Some handler"
    and "map_of (events handler) event = Some fh"
    and "DecodeArgs e (argTypes fh) raw = Inr args"
    and "recovered (reflectCall e (f fh) (VConn (viewHandle c (namespace nc)) # args)) = Some err"
  shows "eventPacketHandler e event header raw c =
           (Some errHandleDispatch,
            c\<lparr>calls := calls c @ [CalledFunc (f fh) (VConn (viewHandle c (namespace nc)) # args)],
              errorChan := errorChan c @ [newErrorMessage (Namespace header) err]\<rparr>)"
  using assms
  by (simp add: eventPacketHandler_def getEventTypes_registered dispatchEvent_def
        funcHandler_Call_recovered conn_onError_def)

lemma connectPacketHandler_no_handler:
  assumes "\<not> quitChan c"
    and "Handlers_Get (handlers c) (Namespace header) = None"
    and "DecodeArgs e defaultHeaderType raw = Inr args"
  shows "connectPacketHandler e header raw c =
           (Some errFailedConnectNamespace,
            c\<lparr>errorChan := errorChan c @ [newErrorMessage (Namespace header) errFailedConnectNamespace]\<rparr>)"
  using assms by (simp add: connectPacketHandler_def conn_onError_def)



lemma namespaceConns_Get_calls [simp]:
  "namespaceConns_Get (c\<lparr>calls := x\<rparr>) ns = namespaceConns_Get c ns"
  by (simp add: namespaceConns_Get_def)

lemma namespaceConns_Get_onError [simp]:
  "namespaceConns_Get (conn_onError ns' err c) ns = namespaceConns_Get c ns"
  by (simp add: namespaceConns_Get_def conn_onError_def)

lemma namespaceConns_Get_Set [simp]:
  "namespaceConns_Get (namespaceConns_Set ns nc c) ns = Some nc"
  by (simp add: namespaceConns_Get_def namespaceConns_Set_def update_conv')

lemma calls_onError [simp]: "calls (conn_onError ns err c) = calls c"
  by (simp add: conn_onError_def)

lemma calls_Set [simp]: "calls (namespaceConns_Set ns nc c) = calls c"
  by (simp add: namespaceConns_Set_def)





section \<open>Claims about the reader, acks and events\<close>




text \<open>
  C5 (as amended). When the function of a registered event panics on a packet that was
  dispatched to it, the panic is trapped: the function is logged as called once, the
  error made of the panic is put on the error queue for the namespace of the packet, and
  the error dispatcher calls the error callback of that namespace with it when one is
  registered. The reader then reports \<^verbatim>\<open>errHandleDispatch\<close> for the root namespace and
  returns: the rest of the input stays unread. Nothing calls \<^verbatim>\<open>Close\<close>; the views, the
  quit channel and the engine connection are as before.
\<close>

theorem event_panic_stops_reader:
  assumes "Type header = Event"
    and "\<not> quitChan c"
    and "namespaceConns_Get c (Namespace (canonicalHeader header)) = Some nc"
    and "Handlers_Get (handlers c) (Namespace (canonicalHeader header)) = Some handler"
    and "map_of (events handler) event = Some fh"
    and "DecodeArgs e (argTypes fh) raw = Inr args"
    and "recovered (reflectCall e (f fh) (VConn (viewHandle c (namespace nc)) # args)) = Some err"
  shows "serveRead e (Packet header event raw # rest) c =
           (ReaderReturned, rest,
            c\<lparr>calls := calls c @ [CalledFunc (f fh) (VConn (viewHandle c (namespace nc)) # args)],
              errorChan := errorChan c @
                [newErrorMessage (Namespace (canonicalHeader header)) err,
                 newErrorMessage rootNamespace errHandleDispatch]\<rparr>) \<and>
         (onError handler = Some cb \<longrightarrow>
            calls (serveError_message (newErrorMessage (Namespace (canonicalHeader header)) err)
                     (snd (snd (serveRead e (Packet header event raw # rest) c)))) =
              calls c @ [CalledFunc (f fh) (VConn (viewHandle c (namespace nc)) # args),
                         CalledOnError cb (viewHandle c (namespace nc)) err])"
proof -
  let ?h = "canonicalHeader header"
  let ?c1 = "c\<lparr>calls := calls c @ [CalledFunc (f fh) (VConn (viewHandle c (namespace nc)) # args)],
               errorChan := errorChan c @ [newErrorMessage (Namespace ?h) err]\<rparr>"
  have "eventPacketHandler e event ?h raw c = (Some errHandleDispatch, ?c1)"
    using assms(2-7) by (rule eventPacketHandler_panic)
  then have "handlePacket e ?h event raw c = (Some errHandleDispatch, ?c1)"
    using assms(1) by (simp add: handlePacket_def canonicalHeader_Type)
  then have r: "serveRead e (Packet header event raw # rest) c =
           (ReaderReturned, rest,
            c\<lparr>calls := calls c @ [CalledFunc (f fh) (VConn (viewHandle c (namespace nc)) # args)],
              errorChan := errorChan c @
                [newErrorMessage (Namespace ?h) err,
                 newErrorMessage rootNamespace errHandleDispatch]\<rparr>)"
    using assms(2) by (simp add: conn_onError_def)
  show ?thesis
    unfolding r using assms(3,4)
    by (simp add: serveError_message_def namespaceConns_Get_def viewHandle_def)
qed

theorem event_panic_stops_reader_witness:
  "serveRead exEnv [Packet chatEvent ''boom'' ''x''] exConn =
     (ReaderReturned, [],
      exConn\<lparr>calls := [CalledFunc 7 [VConn (Conn ''sid-1'' ''/chat''), VString ''x'']],
             errorChan := [newErrorMessage ''/chat'' (ErrorText ''event call error: boom''),
                           newErrorMessage ''/'' errHandleDispatch]\<rparr>) \<and>
   calls (serveError_message (newErrorMessage ''/chat'' (ErrorText ''event call error: boom''))
            (snd (snd (serveRead exEnv [Packet chatEvent ''boom'' ''x''] exConn)))) =
     [CalledFunc 7 [VConn (Conn ''sid-1'' ''/chat''), VString ''x''],
      CalledOnError 2 (Conn ''sid-1'' ''/chat'') (ErrorText ''event call error: boom'')]"
proof -
  have a: "Type chatEvent = Event" "\<not> quitChan exConn"
    "namespaceConns_Get exConn (Namespace (canonicalHeader chatEvent)) = Some (newNamespaceConn ''/chat'')"
    "Handlers_Get (handlers exConn) (Namespace (canonicalHeader chatEvent)) = Some exHandler"
    "map_of (events exHandler) ''boom'' = Some \<lparr>argTypes = [TyString], f = 7\<rparr>"
    "DecodeArgs exEnv (argTypes \<lparr>argTypes = [TyString], f = 7\<rparr>) ''x'' = Inr [VString ''x'']"
    "recovered (reflectCall exEnv (f \<lparr>argTypes = [TyString], f = 7\<rparr>)
       (VConn (viewHandle exConn (namespace (newNamespaceConn ''/chat''))) # [VString ''x'']))
       = Some (ErrorText ''event call error: boom'')"
    "onError exHandler = Some 2"
    by code_simp+
  have b: "Namespace (canonicalHeader chatEvent) = ''/chat''" "rootNamespace = ''/''"
    "viewHandle exConn (namespace (newNamespaceConn ''/chat'')) = Conn ''sid-1'' ''/chat''"
    "calls exConn = []" "errorChan exConn = []"
    by code_simp+
  show ?thesis
    using event_panic_stops_reader [OF a(1-7), of "[]" 2] a(8)
    by (clarsimp simp add: b simp del: serveRead.simps)
qed

text \<open>
  C5 as stated fails: after the event \<open>boom\<close> has panicked the reader has returned, the
  packet for \<open>echo\<close> behind it is unread, and function 8 is never called nor is an ACK
  written, although the same packet alone is dispatched to function 8.
\<close>

theorem event_panic_next_packet_unread:
  "fst (serveRead exEnv [Packet chatEvent ''boom'' ''x'', Packet chatEvent ''echo'' ''hi''] exConn)
     = ReaderReturned \<and>
   fst (snd (serveRead exEnv [Packet chatEvent ''boom'' ''x'', Packet chatEvent ''echo'' ''hi''] exConn))
     = [Packet chatEvent ''echo'' ''hi''] \<and>
   calls (snd (snd (serveRead exEnv
            [Packet chatEvent ''boom'' ''x'', Packet chatEvent ''echo'' ''hi''] exConn)))
     = [CalledFunc 7 [VConn (Conn ''sid-1'' ''/chat''), VString ''x'']] \<and>
   writeChan (snd (snd (serveRead exEnv
            [Packet chatEvent ''boom'' ''x'', Packet chatEvent ''echo'' ''hi''] exConn))) = [] \<and>
   calls (snd (snd (serveRead exEnv [Packet chatEvent ''echo'' ''hi''] exConn)))
     = [CalledFunc 8 [VConn (Conn ''sid-1'' ''/chat''), VString ''hi'']]"
  by code_simp

text \<open>
  C6 (as amended). On a CONNECT packet whose auth payload decodes and whose namespace has
  no registered handler, the reader puts the error \<open>failed to connect to the namespace\<close>
  on the error queue, once for the namespace of the packet and once for the root
  namespace, and returns, leaving the rest of the input unread. No view is created, and
  the reader does not run the close sequence itself: the connection record changes in
  its error queue only (\<^verbatim>\<open>Serve\<close> closes the connection when the engine session is
  done). The error dispatcher calls no callback for the message of the missing namespace.
\<close>

theorem connect_without_handler:
  assumes "Type header = Connect"
    and "\<not> quitChan c"
    and "Handlers_Get (handlers c) (Namespace (canonicalHeader header)) = None"
    and "DecodeArgs e defaultHeaderType raw = Inr args"
  shows "serveRead e (Packet header event raw # rest) c =
           (ReaderReturned, rest,
            c\<lparr>errorChan := errorChan c @
                [newErrorMessage (Namespace (canonicalHeader header)) errFailedConnectNamespace,
                 newErrorMessage rootNamespace errFailedConnectNamespace]\<rparr>) \<and>
         errorText errFailedConnectNamespace = Some ''failed to connect to the namespace'' \<and>
         serveError_message
           (newErrorMessage (Namespace (canonicalHeader header)) errFailedConnectNamespace)
           (snd (snd (serveRead e (Packet header event raw # rest) c))) =
           snd (snd (serveRead e (Packet header event raw # rest) c))"
proof -
  let ?h = "canonicalHeader header"
  have "connectPacketHandler e ?h raw c =
           (Some errFailedConnectNamespace,
            c\<lparr>errorChan := errorChan c @ [newErrorMessage (Namespace ?h) errFailedConnectNamespace]\<rparr>)"
    using assms(2-4) by (rule connectPacketHandler_no_handler)
  then have "handlePacket e ?h event raw c =
           (Some errFailedConnectNamespace,
            c\<lparr>errorChan := errorChan c @ [newErrorMessage (Namespace ?h) errFailedConnectNamespace]\<rparr>)"
    using assms(1) by (simp add: handlePacket_def canonicalHeader_Type)
  then have r: "serveRead e (Packet header event raw # rest) c =
           (ReaderReturned, rest,
            c\<lparr>errorChan := errorChan c @
                [newErrorMessage (Namespace ?h) errFailedConnectNamespace,
                 newErrorMessage rootNamespace errFailedConnectNamespace]\<rparr>)"
    using assms(2) by (simp add: conn_onError_def)
  show ?thesis
    unfolding r using assms(3)
    by (simp add: serveError_message_def errFailedConnectNamespace_text_def)
qed

theorem connect_without_handler_witness:
  "serveRead exEnv [Packet adminConnect [] ''{}'', Packet chatEvent ''echo'' ''hi''] exConn =
     (ReaderReturned, [Packet chatEvent ''echo'' ''hi''],
      exConn\<lparr>errorChan := [newErrorMessage ''/admin'' errFailedConnectNamespace,
                           newErrorMessage ''/'' errFailedConnectNamespace]\<rparr>) \<and>
   namespaceConns_Get exConn ''/admin'' = None"
proof -
  have a: "Type adminConnect = Connect" "\<not> quitChan exConn"
    "Handlers_Get (handlers exConn) (Namespace (canonicalHeader adminConnect)) = None"
    "DecodeArgs exEnv defaultHeaderType ''{}'' = Inr [VString ''{}'']"
    by code_simp+
  have b: "Namespace (canonicalHeader adminConnect) = ''/admin''" "rootNamespace = ''/''"
    "errorChan exConn = []" "namespaceConns_Get exConn ''/admin'' = None"
    by code_simp+
  show ?thesis
    using connect_without_handler [OF a, of "[]" "[Packet chatEvent ''echo'' ''hi'']"]
    by (clarsimp simp add: b simp del: serveRead.simps)
qed

text \<open>
  C6 as stated fails for a CONNECT whose auth payload does not decode: the errors
  reported for \<open>/admin\<close> are the decoder's and \<^verbatim>\<open>errDecodeArgs\<close>, not
  \<open>failed to connect to the namespace\<close>. And when the payload decodes, the reader has
  returned without closing anything: the quit channel is open, the once-latch has not
  fired and \<^verbatim>\<open>Close\<close> of the engine connection has not been called.
\<close>

theorem connect_without_handler_undecodable:
  "errorChan (snd (snd (serveRead exEnv [Packet adminConnect [] ''malformed''] exConn))) =
     [newErrorMessage ''/admin'' (ErrorText ''invalid character''),
      newErrorMessage ''/'' errDecodeArgs] \<and>
   quitChan (snd (snd (serveRead exEnv [Packet adminConnect [] ''{}''] exConn))) = False \<and>
   closeOnce (snd (snd (serveRead exEnv [Packet adminConnect [] ''{}''] exConn))) = False \<and>
   engineClosed (snd (snd (serveRead exEnv [Packet adminConnect [] ''{}''] exConn))) = 0"
  by code_simp

text \<open>
  C10 (as amended). An EVENT packet read on an open connection, for a namespace with a
  handler and a view, whose event has no registered function and whose payload decodes
  (against no types): the dispatch returns no values and no error and calls nothing, the
  handler returns nil and leaves the connection as it was (nothing is written, nothing
  is put on the error queue), and the reader goes on with the next packet.
\<close>

theorem unregistered_event_is_ignored:
  assumes "Type header = Event"
    and "\<not> quitChan c"
    and "namespaceConns_Get c (Namespace (canonicalHeader header)) = Some nc"
    and "Handlers_Get (handlers c) (Namespace (canonicalHeader header)) = Some handler"
    and "map_of (events handler) event = None"
    and "DecodeArgs e [] raw = Inr args"
  shows "dispatchEvent e handler (viewHandle c (namespace nc)) event args = ([], None, []) \<and>
         eventPacketHandler e event (canonicalHeader header) raw c = (None, c) \<and>
         serveRead e (Packet header event raw # rest) c = serveRead e rest c"
proof -
  have h: "eventPacketHandler e event (canonicalHeader header) raw c = (None, c)"
    using assms(3-6) by (rule eventPacketHandler_unregistered)
  then have "handlePacket e (canonicalHeader header) event raw c = (None, c)"
    using assms(1) by (simp add: handlePacket_def canonicalHeader_Type)
  then have "serveRead e (Packet header event raw # rest) c = serveRead e rest c"
    using assms(2) by simp
  with h show ?thesis
    using assms(5) by (simp add: dispatchEvent_unregistered)
qed

theorem unregistered_event_is_ignored_witness:
  "eventPacketHandler exEnv ''nosuch'' (canonicalHeader chatEvent) ''hello'' exConn = (None, exConn) \<and>
   serveRead exEnv [Packet chatEvent ''nosuch'' ''hello'', Packet chatEvent ''echo'' ''hi''] exConn =
     serveRead exEnv [Packet chatEvent ''echo'' ''hi''] exConn \<and>
   calls (snd (snd (serveRead exEnv [Packet chatEvent ''echo'' ''hi''] exConn))) =
     [CalledFunc 8 [VConn (Conn ''sid-1'' ''/chat''), VString ''hi'']]"
proof -
  have a: "Type chatEvent = Event" "\<not> quitChan exConn"
    "namespaceConns_Get exConn (Namespace (canonicalHeader chatEvent)) = Some (newNamespaceConn ''/chat'')"
    "Handlers_Get (handlers exConn) (Namespace (canonicalHeader chatEvent)) = Some exHandler"
    "map_of (events exHandler) ''nosuch'' = None"
    "DecodeArgs exEnv [] ''hello'' = Inr []"
    by code_simp+
  have b: "calls (snd (snd (serveRead exEnv [Packet chatEvent ''echo'' ''hi''] exConn))) =
     [CalledFunc 8 [VConn (Conn ''sid-1'' ''/chat''), VString ''hi'']]"
    by code_simp
  show ?thesis
    using unregistered_event_is_ignored [OF a, of "[Packet chatEvent ''echo'' ''hi'']"] b
    by (clarsimp simp del: serveRead.simps)
qed

text \<open>
  C10 as stated fails for a payload that does not decode: the decoder's error and
  \<^verbatim>\<open>errDecodeArgs\<close> are put on the error queue, the error callback of \<open>/chat\<close> is
  called, and the reader returns with the next packet unread.
\<close>

theorem unregistered_event_undecodable:
  "serveRead exEnv [Packet chatEvent ''nosuch'' ''malformed'', Packet chatEvent ''echo'' ''hi''] exConn =
     (ReaderReturned, [Packet chatEvent ''echo'' ''hi''],
      exConn\<lparr>errorChan := [newErrorMessage ''/chat'' (ErrorText ''invalid character''),
                           newErrorMessage ''/'' errDecodeArgs]\<rparr>) \<and>
   calls (serveError (snd (snd (serveRead exEnv
       [Packet chatEvent ''nosuch'' ''malformed'', Packet chatEvent ''echo'' ''hi''] exConn)))) =
     [CalledOnError 2 (Conn ''sid-1'' ''/chat'') (ErrorText ''invalid character'')]"
  by code_simp

section \<open>Claims about the Redis broadcaster\<close>








end
